theory Spec2Isabelle
  imports Main "HOL-Library.Sublist" "HOL-Library.Char_ord" "HOL-Library.List_Lexorder"
begin

section \<open>Values, dictionaries and strings of the Python program\<close>

text \<open>
  What \<^verbatim>\<open>json.load\<close> can return. The program only ever asks whether a value is a
  \<^verbatim>\<open>dict\<close> or a \<^verbatim>\<open>list\<close>; a float is kept as mantissa and exponent.
  An object is a Python \<^verbatim>\<open>dict\<close>: an association list in insertion order whose
  keys are distinct.
\<close>

datatype json =
    JNull
  | JBool bool
  | JInt int
  | JFloat int int
  | JStr string
  | JArr "json list"
  | JObj "(string \<times> json) list"

type_synonym dict = "(string \<times> json) list"

text \<open>\<^verbatim>\<open>k in d\<close> for a dict \<open>d\<close>.\<close>

definition dict_in :: "'k \<Rightarrow> ('k \<times> 'v) list \<Rightarrow> bool" where
  "dict_in k d = (map_of d k \<noteq> None)"

text \<open>\<^verbatim>\<open>d[k] = v\<close>: an existing key keeps its position, a new key goes last.\<close>

fun dict_set :: "'k \<Rightarrow> 'v \<Rightarrow> ('k \<times> 'v) list \<Rightarrow> ('k \<times> 'v) list" where
  "dict_set k v [] = [(k, v)]"
| "dict_set k v (p # d) = (if fst p = k then (k, v) # d else p # dict_set k v d)"

text \<open>\<^verbatim>\<open>d |= new\<close>: every item of \<open>new\<close> is stored into \<open>d\<close>, in order.\<close>

definition dict_ior :: "('k \<times> 'v) list \<Rightarrow> ('k \<times> 'v) list \<Rightarrow> ('k \<times> 'v) list" where
  "dict_ior d new = fold (\<lambda>(k, v) acc. dict_set k v acc) new d"

text \<open>\<^verbatim>\<open>a in b\<close> for two strings: \<open>a\<close> occurs in \<open>b\<close> as a contiguous substring.\<close>

fun str_in :: "string \<Rightarrow> string \<Rightarrow> bool" where
  "str_in a [] = (a = [])"
| "str_in a (c # b) = (prefix a (c # b) \<or> str_in a b)"

text \<open>\<^verbatim>\<open>str(n)\<close> for an integer, as the f-strings and \<^verbatim>\<open>str(broker.id)\<close> use it.\<close>

fun str_nat :: "nat \<Rightarrow> string" where
  "str_nat n =
     (if n < 10 then [''0123456789'' ! n]
      else str_nat (n div 10) @ [''0123456789'' ! (n mod 10)])"

definition str_int :: "int \<Rightarrow> string" where
  "str_int i = (if i < 0 then CHR ''-'' # str_nat (nat (- i)) else str_nat (nat i))"

section \<open>Exceptions, the Kafka client library and the environment\<close>

text \<open>
  The exceptions the program distinguishes: \<^verbatim>\<open>except KafkaException\<close> catches the first
  only, \<^verbatim>\<open>except Exception\<close> catches all three. \<open>IndexError\<close> is what
  \<^verbatim>\<open>random.choice\<close> raises on an empty list.
\<close>

datatype exc = KafkaException string | IndexError | OtherException string

datatype 'a outcome = Returns 'a | Raises exc

datatype client_kind = AdminClient | Consumer

text \<open>A client object of the library, known by how it was constructed.\<close>

datatype handle = Handle client_kind dict

record BrokerMetadata =
  idb :: int
  host :: string
  port :: int

record ClusterMetadata =
  cluster_id :: string
  controller_id :: int
  brokers :: "(int \<times> BrokerMetadata) list"
  orig_broker_id :: int
  orig_broker_name :: string

datatype ConfigSource =
    UNKNOWN_CONFIG
  | DYNAMIC_TOPIC_CONFIG
  | DYNAMIC_BROKER_CONFIG
  | DYNAMIC_DEFAULT_BROKER_CONFIG
  | STATIC_BROKER_CONFIG
  | DEFAULT_CONFIG

record ConfigEntry =
  name :: string
  val :: "string option"
  source :: ConfigSource
  is_read_only :: bool
  is_sensitive :: bool

text \<open>
  Everything outside the program that one command can consult: the file system and
  the JSON parser, the two random sources, and the client library (constructors,
  \<^verbatim>\<open>list_topics\<close>, \<^verbatim>\<open>describe_configs(...)[res].result()\<close>, \<^verbatim>\<open>close\<close>).
  A constructor or \<open>close\<close> answers \<open>None\<close> when it returns and the exception when
  it raises.
\<close>

record env =
  open_read :: "string \<Rightarrow> string outcome"
  json_load :: "string \<Rightarrow> json outcome"
  uuid4_hex :: string
  random_index :: nat
  construct :: "client_kind \<Rightarrow> dict \<Rightarrow> exc option"
  list_topics :: "handle \<Rightarrow> ClusterMetadata outcome"
  describe_configs :: "handle \<Rightarrow> string \<Rightarrow> (string \<times> ConfigEntry) list outcome"
  close :: "handle \<Rightarrow> exc option"

text \<open>
  What a command does to the outside, in order: lines printed, tables handed to
  \<^verbatim>\<open>tprint\<close> (the rows as passed, header first), and calls into the client library.
\<close>

datatype cell = CStr string | CInt int | CSource ConfigSource | CJson json

datatype call =
    Construct client_kind dict
  | ListTopics handle
  | DescribeConfigs handle string
  | Close handle

datatype event = Print string | Tprint "cell list list" | Call call

fun calls :: "event list \<Rightarrow> call list" where
  "calls [] = []"
| "calls (Call c # t) = c # calls t"
| "calls (ev # t) = calls t"

section \<open>The session state\<close>

text \<open>The fields of \<^verbatim>\<open>State\<close> the commands use (\<^verbatim>\<open>args\<close> is read at start-up only).\<close>

record State =
  config :: dict
  admin :: "handle option"
  consumer :: "handle option"
  broker :: json

definition S_init :: State where
  "S_init = \<lparr>config = [], admin = None, consumer = None, broker = JStr ''not connected''\<rparr>"

section \<open>Configuration management\<close>

definition print_config :: "dict \<Rightarrow> event list" where
  "print_config cfg =
     (if cfg = [] then [Print '' (-) No configuration'']
      else [Tprint ([CStr ''Key'', CStr ''Value''] # map (\<lambda>(k, v). [CStr k, CJson v]) cfg)])"

text \<open>The \<^verbatim>\<open>try\<close> block of \<^verbatim>\<open>exec_load\<close>: open the file, parse it.\<close>

definition read_document :: "env \<Rightarrow> string \<Rightarrow> json outcome" where
  "read_document env fpath =
     (case open_read env fpath of
        Raises e \<Rightarrow> Raises e
      | Returns text \<Rightarrow> json_load env text)"

definition exec_load :: "env \<Rightarrow> dict \<Rightarrow> string \<Rightarrow> dict \<times> event list" where
  "exec_load env cfg fpath =
     (case read_document env fpath of
        Raises e \<Rightarrow> (cfg, [Print ('' (-) Could not load file: '' @ fpath)])
      | Returns new \<Rightarrow>
          (case new of
             JObj d \<Rightarrow>
               (dict_ior cfg d,
                [Print '' (+) Loaded configuration from file:'', Print ''''] @ print_config d)
           | _ \<Rightarrow> (cfg, [Print '' (-) Configuration must be an object''])))"

section \<open>Connection handling\<close>

text \<open>Lines 155 to 158: the group identifier is written into the configuration itself.\<close>

definition default_group_id :: "env \<Rightarrow> dict \<Rightarrow> dict \<times> event list" where
  "default_group_id env cfg =
     (if \<not> dict_in ''group.id'' cfg
      then (dict_set ''group.id'' (JStr (uuid4_hex env)) cfg,
            [Print ('' (+) Group ID not configured, using: '' @ uuid4_hex env), Print ''''])
      else (cfg, []))"

text \<open>Lines 164 to 166; \<^verbatim>\<open>random.choice\<close> raises on an empty list.\<close>

definition resolve_bootstrap :: "env \<Rightarrow> json \<Rightarrow> json outcome" where
  "resolve_bootstrap env b =
     (case b of
        JArr xs \<Rightarrow>
          (if xs = [] then Raises IndexError
           else Returns (xs ! (random_index env mod length xs)))
      | _ \<Rightarrow> Returns b)"

definition admin_conf :: "dict \<Rightarrow> json \<Rightarrow> dict" where
  "admin_conf cfg bs =
     dict_set ''bootstrap.servers'' bs
       (filter (\<lambda>(k, v). k \<in> set [''security.protocol'', ''ssl.ca.location'',
                                   ''ssl.certificate.location'', ''ssl.key.location'']) cfg)"

definition consumer_conf :: "dict \<Rightarrow> json \<Rightarrow> dict" where
  "consumer_conf cfg bs =
     dict_set ''enable.partition.eof'' (JBool True) (dict_set ''bootstrap.servers'' bs cfg)"

text \<open>Lines 172 to 185.\<close>

definition connect_admin :: "env \<Rightarrow> json \<Rightarrow> State \<Rightarrow> exc option \<times> State \<times> event list" where
  "connect_admin env bs S =
     (let conf = admin_conf (config S) bs in
      case construct env AdminClient conf of
        None \<Rightarrow>
          (None, S\<lparr>admin := Some (Handle AdminClient conf), broker := bs\<rparr>,
           [Call (Construct AdminClient conf), Print '' (+) Admin client connected''])
      | Some e \<Rightarrow>
          (case e of
             KafkaException msg \<Rightarrow>
               (None, S,
                [Call (Construct AdminClient conf),
                 Print ('' (-) Admin client connection failed: '' @ msg)])
           | _ \<Rightarrow> (Some e, S, [Call (Construct AdminClient conf)])))"

text \<open>Lines 191 to 201.\<close>

definition connect_consumer :: "env \<Rightarrow> json \<Rightarrow> State \<Rightarrow> exc option \<times> State \<times> event list" where
  "connect_consumer env bs S =
     (let conf = consumer_conf (config S) bs in
      case construct env Consumer conf of
        None \<Rightarrow>
          (None, S\<lparr>consumer := Some (Handle Consumer conf), broker := bs\<rparr>,
           [Print '''', Call (Construct Consumer conf), Print '' (+) Consumer connected''])
      | Some e \<Rightarrow>
          (case e of
             KafkaException msg \<Rightarrow>
               (None, S,
                [Print '''', Call (Construct Consumer conf),
                 Print ('' (-) Consumer connection failed: '' @ msg)])
           | _ \<Rightarrow> (Some e, S, [Print '''', Call (Construct Consumer conf)])))"

text \<open>
  \<^verbatim>\<open>exec_connect(config)\<close> is called with \<^verbatim>\<open>S.config\<close> (line 98) and assigns to the
  global \<^verbatim>\<open>S\<close>. The result is the exception that leaves the function, if any, the
  state at that moment, and what was printed and called. The test of line 160 and the
  lookup of line 164 are one case distinction on the value stored under the key.
\<close>

definition exec_connect :: "env \<Rightarrow> State \<Rightarrow> exc option \<times> State \<times> event list" where
  "exec_connect env S =
     (case default_group_id env (config S) of
        (cfg, t0) \<Rightarrow>
          (let S0 = S\<lparr>config := cfg\<rparr> in
           case map_of cfg ''bootstrap.servers'' of
             None \<Rightarrow> (None, S0, t0 @ [Print '' (-) Bootstrap server not configured''])
           | Some b \<Rightarrow>
               (case resolve_bootstrap env b of
                  Raises e \<Rightarrow> (Some e, S0, t0)
                | Returns bs \<Rightarrow>
                    (case connect_admin env bs S0 of
                       (Some e, S1, t1) \<Rightarrow> (Some e, S1, t0 @ t1)
                     | (None, S1, t1) \<Rightarrow>
                         (case connect_consumer env bs S1 of
                            (r, S2, t2) \<Rightarrow> (r, S2, t0 @ t1 @ t2))))))"

text \<open>
  \<^verbatim>\<open>exec_disconnect(admin, consumer)\<close> receives the two handles only: it has no way to
  assign to \<^verbatim>\<open>S.admin\<close> or \<^verbatim>\<open>S.consumer\<close>, and its model returns no state.
\<close>

definition close_handle :: "env \<Rightarrow> handle option \<Rightarrow> string \<Rightarrow> exc option \<times> event list" where
  "close_handle env h msg =
     (case h of
        None \<Rightarrow> (None, [])
      | Some c \<Rightarrow>
          (case close env c of
             None \<Rightarrow> (None, [Call (Close c), Print msg])
           | Some e \<Rightarrow> (Some e, [Call (Close c)])))"

definition exec_disconnect :: "env \<Rightarrow> handle option \<Rightarrow> handle option \<Rightarrow> exc option \<times> event list" where
  "exec_disconnect env adm con =
     (let t0 = (if adm = None \<and> con = None then [Print '' (-) Not connected''] else []) in
      case close_handle env adm '' (+) Admin disconnected'' of
        (Some e, t1) \<Rightarrow> (Some e, t0 @ t1)
      | (None, t1) \<Rightarrow>
          (case close_handle env con '' (+) Consumer disconnected'' of
             (r, t2) \<Rightarrow> (r, t0 @ t1 @ t2)))"

section \<open>General enumeration and overview\<close>

text \<open>Lines 238 to 246.\<close>

definition query_meta :: "env \<Rightarrow> handle \<Rightarrow> exc option \<times> ClusterMetadata option \<times> event list" where
  "query_meta env h =
     (case list_topics env h of
        Returns m \<Rightarrow> (None, Some m, [Call (ListTopics h)])
      | Raises e \<Rightarrow>
          (case e of
             KafkaException msg \<Rightarrow>
               (None, None,
                [Call (ListTopics h), Print ('' (-) Could not query metadata: '' @ msg), Print ''''])
           | _ \<Rightarrow> (Some e, None, [Call (ListTopics h)])))"

definition fetch_meta ::
  "env \<Rightarrow> handle option \<Rightarrow> handle option \<Rightarrow> exc option \<times> ClusterMetadata option \<times> event list" where
  "fetch_meta env adm con =
     (case adm of
        Some a \<Rightarrow> query_meta env a
      | None \<Rightarrow> (case con of Some c \<Rightarrow> query_meta env c | None \<Rightarrow> (None, None, [])))"

text \<open>Lines 264 to 284: the broker table and the two identity checks.\<close>

definition broker_metadata :: "ClusterMetadata \<Rightarrow> event list" where
  "broker_metadata m =
     [Print ('' (+) Metadata origin broker name: '' @ orig_broker_name m),
      Print '''',
      Tprint ([CStr ''ID'', CStr ''Host'', CStr ''Port'']
              # map (\<lambda>b. [CInt (idb b), CStr (host b), CInt (port b)])
                    (sort_key idb (map snd (brokers m)))),
      Print '''',
      (if dict_in (orig_broker_id m) (brokers m)
       then Print ('' (+) Metadata origin broker ID: '' @ str_int (orig_broker_id m))
       else Print ('' (-) Invalid metadata origin broker ID: '' @ str_int (orig_broker_id m))),
      Print '''',
      (if dict_in (controller_id m) (brokers m)
       then Print ('' (+) Controller broker ID: '' @ str_int (controller_id m))
       else Print ('' (-) Invalid controller broker ID: '' @ str_int (controller_id m))),
      Print '''']"

text \<open>
  Lines 295 to 309. The filter is \<^verbatim>\<open>k in ("ssl.client.auth")\<close>: the parentheses hold a
  string, not a tuple, so \<^verbatim>\<open>in\<close> is the substring test.
\<close>

definition entry_row :: "ConfigEntry \<Rightarrow> cell list" where
  "entry_row e =
     [CStr (take 40 (name e)),
      CStr (case val e of Some v \<Rightarrow> take 20 v | None \<Rightarrow> ''-''),
      CSource (source e),
      CStr (if is_read_only e then ''Yes'' else ''''),
      CStr (if is_sensitive e then ''Yes'' else '''')]"

definition config_rows :: "(string \<times> ConfigEntry) list \<Rightarrow> cell list list" where
  "config_rows entries =
     map (\<lambda>(k, e). entry_row e)
         (filter (\<lambda>(k, e). str_in k ''ssl.client.auth'') (sort_key fst entries))"

definition config_table :: "(string \<times> ConfigEntry) list \<Rightarrow> event" where
  "config_table entries =
     Tprint ([CStr ''Name'', CStr ''Value'', CStr ''Source'', CStr ''Read Only'', CStr ''Sensitive'']
             # config_rows entries)"

text \<open>Lines 291 to 311: the loop over \<^verbatim>\<open>meta.brokers.values()\<close>, in the dict's order.\<close>

fun describe_brokers :: "env \<Rightarrow> handle \<Rightarrow> BrokerMetadata list \<Rightarrow> exc option \<times> event list" where
  "describe_brokers env a [] = (None, [])"
| "describe_brokers env a (b # bs) =
     (let res = str_int (idb b) in
      case describe_configs env a res of
        Returns entries \<Rightarrow>
          (case describe_brokers env a bs of
             (r, t) \<Rightarrow> (r, Call (DescribeConfigs a res) # config_table entries # t))
      | Raises e \<Rightarrow>
          (case e of
             KafkaException msg \<Rightarrow>
               (case describe_brokers env a bs of
                  (r, t) \<Rightarrow>
                    (r, Call (DescribeConfigs a res)
                        # Print ('' (-) Could not describe broker '' @ str_int (idb b)) # t))
           | _ \<Rightarrow> (Some e, [Call (DescribeConfigs a res)])))"

definition exec_cluster :: "env \<Rightarrow> handle option \<Rightarrow> handle option \<Rightarrow> exc option \<times> event list" where
  "exec_cluster env adm con =
     (if adm = None \<and> con = None then (None, [Print '' (-) Not connected''])
      else
        (case fetch_meta env adm con of
           (Some e, meta, t0) \<Rightarrow> (Some e, t0)
         | (None, meta, t0) \<Rightarrow>
             (let t1 = (case meta of
                          Some m \<Rightarrow> [Print ('' (+) Cluster ID: '' @ cluster_id m), Print '''']
                        | None \<Rightarrow> []);
                  t2 = (case meta of Some m \<Rightarrow> broker_metadata m | None \<Rightarrow> [])
              in case (adm, meta) of
                   (Some a, Some m) \<Rightarrow>
                     (case describe_brokers env a (map snd (brokers m)) of
                        (r, t3) \<Rightarrow> (r, t0 @ t1 @ t2 @ t3))
                 | _ \<Rightarrow> (None, t0 @ t1 @ t2))))"

section \<open>The command loop\<close>

text \<open>
  One turn of the loop of \<^verbatim>\<open>main\<close> (lines 61 to 114) on a command already split
  into words. The flag says whether the loop goes on (\<^verbatim>\<open>exit\<close> clears it).
\<close>

definition help_table :: event where
  "help_table =
     Tprint [[CStr ''Command'', CStr ''Description''],
             [CStr ''config'', CStr ''show current configuration''],
             [CStr ''connect'', CStr ''create consumer and admin client''],
             [CStr ''disconnect'', CStr ''close consumer and admin client''],
             [CStr ''exit'', CStr ''exit the script''],
             [CStr ''help'', CStr ''show this help message''],
             [CStr ''load <file>'', CStr ''load kafka config from json file'']]"

definition command :: "env \<Rightarrow> State \<Rightarrow> string list \<Rightarrow> exc option \<times> bool \<times> State \<times> event list" where
  "command env S cmd =
     (case cmd of
        [] \<Rightarrow> (None, True, S, [])
      | c # args \<Rightarrow>
          if c = ''exit'' then (None, False, S, [Print ''''])
          else if c = ''help'' \<or> c = ''?'' then (None, True, S, [Print '''', help_table])
          else if c = ''config'' then (None, True, S, Print '''' # print_config (config S))
          else if c = ''load'' then
            (if length cmd \<noteq> 2 then (None, True, S, [Print '''', Print '' (-) usage: load <file>''])
             else (case exec_load env (config S) (cmd ! 1) of
                     (cfg, t) \<Rightarrow> (None, True, S\<lparr>config := cfg\<rparr>, Print '''' # t)))
          else if c = ''connect'' then
            (if config S = [] then (None, True, S, [Print '''', Print '' (-) Configuration required''])
             else (case exec_connect env S of (r, S', t) \<Rightarrow> (r, True, S', Print '''' # t)))
          else if c = ''disconnect'' then
            (case exec_disconnect env (admin S) (consumer S) of
               (r, t) \<Rightarrow> (r, True, S, Print '''' # t))
          else if c = ''cluster'' then
            (case exec_cluster env (admin S) (consumer S) of
               (r, t) \<Rightarrow> (r, True, S, Print '''' # t))
          else (None, True, S, [Print '''', Print ('' (-) Command not found: '' @ c)]))"

section \<open>Concrete environments and sessions\<close>

text \<open>
  A file system with two configuration files, a file holding a top-level array and a
  truncated file; every other path is missing. The cluster accepts both clients.
\<close>

definition env_load :: env where
  \<open>env_load =
     \<lparr>open_read = (\<lambda>p. if p = ''first.json''
                            then Returns ''{"bootstrap.servers": "kafka1:9092", "group.id": "g1"}''
                          else if p = ''second.json'' then Returns ''{"group.id": "g2"}''
                          else if p = ''array.json'' then Returns ''["kafka1:9092"]''
                          else if p = ''broken.json'' then Returns ''{"group.id": ''
                          else Raises (OtherException ''FileNotFoundError'')),
      json_load = (\<lambda>s. if s = ''{"bootstrap.servers": "kafka1:9092", "group.id": "g1"}''
                            then Returns (JObj [(''bootstrap.servers'', JStr ''kafka1:9092''),
                                                (''group.id'', JStr ''g1'')])
                          else if s = ''{"group.id": "g2"}''
                            then Returns (JObj [(''group.id'', JStr ''g2'')])
                          else if s = ''["kafka1:9092"]'' then Returns (JArr [JStr ''kafka1:9092''])
                          else Raises (OtherException ''JSONDecodeError'')),
      uuid4_hex = ''0f8fad5bd9cb469fa16570867728950e'',
      random_index = 0,
      construct = (\<lambda>k d. None),
      list_topics = (\<lambda>h. Raises (KafkaException ''timed out'')),
      describe_configs = (\<lambda>h r. Raises (KafkaException ''timed out'')),
      close = (\<lambda>h. None)\<rparr>\<close>

text \<open>
  Variations of that environment: another draw of the random identifier; a cluster
  that refuses every client, or the admin client only, with \<open>KafkaException\<close>; a
  consumer constructor that raises \<open>ValueError\<close>. And three sessions that have
  never connected: one with TLS settings only, one with a bootstrap address, one whose
  bootstrap list is empty.
\<close>

definition env_other_draw :: env where
  "env_other_draw = env_load\<lparr>uuid4_hex := ''7c9e6679742540de944be07fc1f90ae7''\<rparr>"

definition env_down :: env where
  "env_down = env_load\<lparr>construct := (\<lambda>k d. Some (KafkaException ''Failed to create handle''))\<rparr>"

definition env_admin_down :: env where
  "env_admin_down =
     env_load\<lparr>construct := (\<lambda>k d. if k = AdminClient
                                     then Some (KafkaException ''Failed to create handle'')
                                     else None)\<rparr>"

definition env_value_error :: env where
  "env_value_error =
     env_load\<lparr>construct := (\<lambda>k d. if k = Consumer then Some (OtherException ''ValueError'')
                                     else None)\<rparr>"

definition S_tls_only :: State where
  "S_tls_only = S_init\<lparr>config := [(''security.protocol'', JStr ''SSL'')]\<rparr>"

definition S_bootstrap :: State where
  "S_bootstrap = S_init\<lparr>config := [(''bootstrap.servers'', JStr ''kafka1:9092'')]\<rparr>"

definition S_no_seeds :: State where
  "S_no_seeds = S_init\<lparr>config := [(''bootstrap.servers'', JArr [])]\<rparr>"

text \<open>
  Clusters: three brokers whose metadata lists them in the order 1, 3, 2; a single
  broker; and two snapshots of two brokers, one naming a controller outside the set,
  the other an origin broker outside the set. The
  per-broker configuration fetch either times out for broker 2, or returns, next to the
  TLS client-authentication setting, an entry stored under the key \<open>ssl\<close>.
\<close>

definition kafka1 :: BrokerMetadata where
  "kafka1 = \<lparr>idb = 1, host = ''kafka1.internal'', port = 9092\<rparr>"

definition kafka2 :: BrokerMetadata where
  "kafka2 = \<lparr>idb = 2, host = ''kafka2.internal'', port = 9092\<rparr>"

definition kafka3 :: BrokerMetadata where
  "kafka3 = \<lparr>idb = 3, host = ''kafka3.internal'', port = 9092\<rparr>"

definition meta_three :: ClusterMetadata where
  "meta_three =
     \<lparr>cluster_id = ''lkc-7f3a'', controller_id = 3,
      brokers = [(1, kafka1), (3, kafka3), (2, kafka2)],
      orig_broker_id = 1, orig_broker_name = ''kafka1.internal:9092/1''\<rparr>"

definition meta_one :: ClusterMetadata where
  "meta_one =
     \<lparr>cluster_id = ''lkc-7f3a'', controller_id = 1,
      brokers = [(1, kafka1)],
      orig_broker_id = 1, orig_broker_name = ''kafka1.internal:9092/1''\<rparr>"

definition entry_client_auth :: ConfigEntry where
  "entry_client_auth =
     \<lparr>name = ''ssl.client.auth'', val = Some ''required'', source = STATIC_BROKER_CONFIG,
      is_read_only = True, is_sensitive = False\<rparr>"

definition entry_log_dirs :: ConfigEntry where
  "entry_log_dirs =
     \<lparr>name = ''log.dirs'', val = Some ''/var/lib/kafka/data'', source = STATIC_BROKER_CONFIG,
      is_read_only = True, is_sensitive = False\<rparr>"

definition entry_ssl :: ConfigEntry where
  "entry_ssl =
     \<lparr>name = ''ssl'', val = None, source = DYNAMIC_BROKER_CONFIG,
      is_read_only = False, is_sensitive = True\<rparr>"

definition admin_handle :: handle where
  "admin_handle = Handle AdminClient [(''bootstrap.servers'', JStr ''kafka1:9092'')]"

definition env_broker2_down :: env where
  "env_broker2_down =
     env_load\<lparr>list_topics := (\<lambda>h. Returns meta_three),
              describe_configs :=
                (\<lambda>h res. if res = ''2'' then Raises (KafkaException ''timed out'')
                          else Returns [(''log.dirs'', entry_log_dirs),
                                        (''ssl.client.auth'', entry_client_auth)])\<rparr>"

definition env_ssl_entry :: env where
  "env_ssl_entry =
     env_load\<lparr>list_topics := (\<lambda>h. Returns meta_one),
              describe_configs :=
                (\<lambda>h res. Returns [(''ssl.client.auth'', entry_client_auth),
                                   (''log.dirs'', entry_log_dirs),
                                   (''ssl'', entry_ssl)])\<rparr>"

definition consumer_handle :: handle where
  "consumer_handle =
     Handle Consumer [(''bootstrap.servers'', JStr ''kafka1:9092''),
                      (''group.id'', JStr ''g1''), (''enable.partition.eof'', JBool True)]"

definition meta_stale :: ClusterMetadata where
  "meta_stale =
     \<lparr>cluster_id = ''lkc-7f3a'', controller_id = 5,
      brokers = [(1, kafka1), (2, kafka2)],
      orig_broker_id = 2, orig_broker_name = ''kafka2.internal:9092/2''\<rparr>"

definition env_stale :: env where
  "env_stale = env_load\<lparr>list_topics := (\<lambda>h. Returns meta_stale)\<rparr>"

definition meta_foreign :: ClusterMetadata where
  "meta_foreign =
     \<lparr>cluster_id = ''lkc-7f3a'', controller_id = 1,
      brokers = [(1, kafka1), (2, kafka2)],
      orig_broker_id = 7, orig_broker_name = ''kafka7.internal:9092/7''\<rparr>"

definition env_foreign :: env where
  "env_foreign = env_load\<lparr>list_topics := (\<lambda>h. Returns meta_foreign)\<rparr>"

definition S_connected :: State where
  "S_connected =
     \<lparr>config = [(''bootstrap.servers'', JStr ''kafka1:9092''), (''group.id'', JStr ''g1'')],
      admin = Some admin_handle, consumer = Some consumer_handle,
      broker = JStr ''kafka1:9092''\<rparr>"

section \<open>Dictionaries\<close>

lemma map_of_dict_set: "map_of (dict_set k v d) = (map_of d)(k \<mapsto> v)"
  by (induction d) (auto simp: fun_eq_iff)

lemma map_of_dict_ior: "map_of (dict_ior d new) = map_of d ++ map_of (rev new)"
  unfolding dict_ior_def
  by (induction new arbitrary: d)
     (auto simp: map_of_dict_set map_add_def fun_eq_iff split: option.splits)

lemma map_of_rev_distinct: "distinct (map fst xs) \<Longrightarrow> map_of (rev xs) = map_of xs"
proof (induction xs)
  case Nil
  then show ?case by simp
next
  case (Cons p xs)
  then have "fst p \<notin> dom (map_of xs)"
    by (simp add: dom_map_of_conv_image_fst)
  then have "map_of xs (fst p) = None"
    by blast
  with Cons show ?case
    by (cases p) (auto simp: fun_eq_iff map_add_def split: option.splits)
qed

section \<open>Loading a configuration file\<close>

text \<open>
  C3. When the file cannot be opened, when its contents do not parse, or when the
  parsed document is not an object, \<open>exec_load\<close> prints one diagnostic and returns
  the configuration it was given, unchanged.
\<close>

theorem C3_failed_load_keeps_config:
  "(open_read env fpath = Raises e \<longrightarrow>
      exec_load env cfg fpath = (cfg, [Print ('' (-) Could not load file: '' @ fpath)])) \<and>
   (open_read env fpath = Returns text \<and> json_load env text = Raises e \<longrightarrow>
      exec_load env cfg fpath = (cfg, [Print ('' (-) Could not load file: '' @ fpath)])) \<and>
   (open_read env fpath = Returns text \<and> json_load env text = Returns new \<and>
    (\<forall>d. new \<noteq> JObj d) \<longrightarrow>
      exec_load env cfg fpath = (cfg, [Print '' (-) Configuration must be an object'']))"
proof (intro conjI impI)
  assume "open_read env fpath = Raises e"
  then show "exec_load env cfg fpath = (cfg, [Print ('' (-) Could not load file: '' @ fpath)])"
    by (simp add: exec_load_def read_document_def)
next
  assume "open_read env fpath = Returns text \<and> json_load env text = Raises e"
  then show "exec_load env cfg fpath = (cfg, [Print ('' (-) Could not load file: '' @ fpath)])"
    by (simp add: exec_load_def read_document_def)
next
  assume a: "open_read env fpath = Returns text \<and> json_load env text = Returns new \<and>
    (\<forall>d. new \<noteq> JObj d)"
  then have "read_document env fpath = Returns new"
    by (simp add: read_document_def)
  with a show "exec_load env cfg fpath = (cfg, [Print '' (-) Configuration must be an object''])"
    by (cases new) (simp_all add: exec_load_def)
qed

theorem C3_failed_load_keeps_config_witness:
  "exec_load env_load [(''group.id'', JStr ''g1'')] ''missing.json''
     = ([(''group.id'', JStr ''g1'')], [Print '' (-) Could not load file: missing.json'']) \<and>
   exec_load env_load [(''group.id'', JStr ''g1'')] ''broken.json''
     = ([(''group.id'', JStr ''g1'')], [Print '' (-) Could not load file: broken.json'']) \<and>
   exec_load env_load [(''group.id'', JStr ''g1'')] ''array.json''
     = ([(''group.id'', JStr ''g1'')], [Print '' (-) Configuration must be an object''])"
proof -
  have missing: "open_read env_load ''missing.json'' = Raises (OtherException ''FileNotFoundError'')"
    by (simp add: env_load_def)
  have broken: \<open>open_read env_load ''broken.json'' = Returns ''{"group.id": '' \<and>
      json_load env_load ''{"group.id": '' = Raises (OtherException ''JSONDecodeError'')\<close>
    by (simp add: env_load_def)
  have array: \<open>open_read env_load ''array.json'' = Returns ''["kafka1:9092"]'' \<and>
      json_load env_load ''["kafka1:9092"]'' = Returns (JArr [JStr ''kafka1:9092'']) \<and>
      (\<forall>d. JArr [JStr ''kafka1:9092''] \<noteq> JObj d)\<close>
    by (simp add: env_load_def)
  show ?thesis
    using missing broken array
      C3_failed_load_keeps_config [of env_load "''missing.json''"
        "OtherException ''FileNotFoundError''" "[(''group.id'', JStr ''g1'')]"]
      C3_failed_load_keeps_config [of env_load "''broken.json''"
        "OtherException ''JSONDecodeError''" "[(''group.id'', JStr ''g1'')]" \<open>''{"group.id": ''\<close>]
      C3_failed_load_keeps_config [of env_load "''array.json''" _
        "[(''group.id'', JStr ''g1'')]" \<open>''["kafka1:9092"]''\<close> "JArr [JStr ''kafka1:9092'']"]
    by simp
qed

text \<open>
  C4. When the document parses to an object, the configuration afterwards maps every
  key of the document to the document's value and every other key to its prior value.
  The keys of the object are distinct, as those of a Python dict are.
\<close>

theorem C4_load_shallow_override:
  assumes "read_document env fpath = Returns (JObj new)"
    and "distinct (map fst new)"
  shows "map_of (fst (exec_load env cfg fpath)) k
           = (case map_of new k of Some v \<Rightarrow> Some v | None \<Rightarrow> map_of cfg k)"
proof -
  have "fst (exec_load env cfg fpath) = dict_ior cfg new"
    using assms(1) by (simp add: exec_load_def)
  moreover have "map_of (rev new) = map_of new"
    using assms(2) by (rule map_of_rev_distinct)
  ultimately show ?thesis
    by (simp add: map_of_dict_ior map_add_def)
qed

theorem C4_load_shallow_override_witness:
  "fst (exec_load env_load [] ''first.json'')
     = [(''bootstrap.servers'', JStr ''kafka1:9092''), (''group.id'', JStr ''g1'')] \<and>
   fst (exec_load env_load (fst (exec_load env_load [] ''first.json'')) ''second.json'')
     = [(''bootstrap.servers'', JStr ''kafka1:9092''), (''group.id'', JStr ''g2'')] \<and>
   (\<forall>k. map_of (fst (exec_load env_load (fst (exec_load env_load [] ''first.json''))
                        ''second.json'')) k
        = (if k = ''group.id'' then Some (JStr ''g2'')
           else map_of (fst (exec_load env_load [] ''first.json'')) k))"
proof -
  have doc: "read_document env_load ''second.json'' = Returns (JObj [(''group.id'', JStr ''g2'')])"
    by (simp add: read_document_def env_load_def)
  have keys: "distinct (map fst [(''group.id'', JStr ''g2'')])"
    by simp
  have first: "fst (exec_load env_load [] ''first.json'')
     = [(''bootstrap.servers'', JStr ''kafka1:9092''), (''group.id'', JStr ''g1'')]"
    by (simp add: exec_load_def read_document_def env_load_def dict_ior_def)
  have second: "fst (exec_load env_load
        [(''bootstrap.servers'', JStr ''kafka1:9092''), (''group.id'', JStr ''g1'')] ''second.json'')
     = [(''bootstrap.servers'', JStr ''kafka1:9092''), (''group.id'', JStr ''g2'')]"
    by (simp add: exec_load_def read_document_def env_load_def dict_ior_def)
  have "\<forall>k. map_of (fst (exec_load env_load (fst (exec_load env_load [] ''first.json''))
                        ''second.json'')) k
        = (if k = ''group.id'' then Some (JStr ''g2'')
           else map_of (fst (exec_load env_load [] ''first.json'')) k)"
    using C4_load_shallow_override [OF doc keys, of "fst (exec_load env_load [] ''first.json'')"]
    by simp
  with first second show ?thesis
    by simp
qed

section \<open>Connecting\<close>

lemma bootstrap_after_default:
  "map_of (fst (default_group_id env cfg)) ''bootstrap.servers'' = map_of cfg ''bootstrap.servers''"
  by (simp add: default_group_id_def map_of_dict_set)

lemma group_id_after_default:
  "\<not> dict_in ''group.id'' cfg \<Longrightarrow>
   default_group_id env cfg =
     (dict_set ''group.id'' (JStr (uuid4_hex env)) cfg,
      [Print ('' (+) Group ID not configured, using: '' @ uuid4_hex env), Print ''''])"
  by (simp add: default_group_id_def)

lemma group_id_present_default:
  "dict_in ''group.id'' cfg \<Longrightarrow> default_group_id env cfg = (cfg, [])"
  by (simp add: default_group_id_def)

lemma connect_admin_frame:
  "connect_admin env bs S = (r, S1, t) \<Longrightarrow> config S1 = config S \<and> consumer S1 = consumer S"
  by (auto simp: connect_admin_def Let_def split: option.splits exc.splits)

lemma connect_consumer_frame:
  "connect_consumer env bs S = (r, S1, t) \<Longrightarrow> config S1 = config S \<and> admin S1 = admin S"
  by (auto simp: connect_consumer_def Let_def split: option.splits exc.splits)

lemma exec_connect_no_bootstrap:
  assumes "map_of (config S) ''bootstrap.servers'' = None"
  shows "exec_connect env S =
           (None, S\<lparr>config := fst (default_group_id env (config S))\<rparr>,
            snd (default_group_id env (config S)) @ [Print '' (-) Bootstrap server not configured''])"
proof -
  obtain cfg t0 where d: "default_group_id env (config S) = (cfg, t0)"
    by (cases "default_group_id env (config S)")
  have "map_of cfg ''bootstrap.servers'' = None"
    using bootstrap_after_default [of env "config S"] d assms by simp
  with d show ?thesis
    by (simp add: exec_connect_def)
qed

lemma exec_connect_resolved:
  assumes "map_of (config S) ''bootstrap.servers'' = Some b"
    and "resolve_bootstrap env b = Returns bs"
    and "default_group_id env (config S) = (cfg, t0)"
  shows "exec_connect env S =
           (case connect_admin env bs (S\<lparr>config := cfg\<rparr>) of
              (Some e, S1, t1) \<Rightarrow> (Some e, S1, t0 @ t1)
            | (None, S1, t1) \<Rightarrow>
                (case connect_consumer env bs S1 of (r, S2, t2) \<Rightarrow> (r, S2, t0 @ t1 @ t2)))"
proof -
  have "map_of cfg ''bootstrap.servers'' = Some b"
    using bootstrap_after_default [of env "config S"] assms(1,3) by simp
  with assms(2,3) show ?thesis
    by (simp add: exec_connect_def)
qed

lemma exec_connect_raises_in_resolve:
  assumes "map_of (config S) ''bootstrap.servers'' = Some b"
    and "resolve_bootstrap env b = Raises e"
  shows "exec_connect env S =
           (Some e, S\<lparr>config := fst (default_group_id env (config S))\<rparr>,
            snd (default_group_id env (config S)))"
proof -
  obtain cfg t0 where d: "default_group_id env (config S) = (cfg, t0)"
    by (cases "default_group_id env (config S)")
  have "map_of cfg ''bootstrap.servers'' = Some b"
    using bootstrap_after_default [of env "config S"] d assms(1) by simp
  with d assms(2) show ?thesis
    by (simp add: exec_connect_def)
qed

lemma config_exec_connect:
  "config (fst (snd (exec_connect env S))) = fst (default_group_id env (config S))"
proof (cases "map_of (config S) ''bootstrap.servers''")
  case None
  then show ?thesis by (simp add: exec_connect_no_bootstrap)
next
  case (Some b)
  obtain cfg t0 where d: "default_group_id env (config S) = (cfg, t0)"
    by (cases "default_group_id env (config S)")
  show ?thesis
  proof (cases "resolve_bootstrap env b")
    case (Raises e)
    with Some show ?thesis by (simp add: exec_connect_raises_in_resolve)
  next
    case (Returns bs)
    obtain r1 S1 t1 where a: "connect_admin env bs (S\<lparr>config := cfg\<rparr>) = (r1, S1, t1)"
      by (cases "connect_admin env bs (S\<lparr>config := cfg\<rparr>)")
    obtain r2 S2 t2 where c: "connect_consumer env bs S1 = (r2, S2, t2)"
      by (cases "connect_consumer env bs S1")
    have "config S1 = cfg"
      using connect_admin_frame [OF a] by simp
    moreover have "config S2 = config S1"
      using connect_consumer_frame [OF c] by simp
    ultimately show ?thesis
      using exec_connect_resolved [OF Some Returns d] a c d
      by (cases r1) simp_all
  qed
qed

text \<open>
  C5. Without a bootstrap address in the configuration, \<open>exec_connect\<close> on the
  initial session returns normally with no admin handle, no consumer handle and the
  label still \<open>not connected\<close>; it makes no call into the client library and its
  last line is the missing-bootstrap diagnostic.
\<close>

theorem C5_connect_requires_bootstrap:
  assumes "\<not> dict_in ''bootstrap.servers'' cfg"
  shows "fst (exec_connect env (S_init\<lparr>config := cfg\<rparr>)) = None \<and>
         admin (fst (snd (exec_connect env (S_init\<lparr>config := cfg\<rparr>)))) = None \<and>
         consumer (fst (snd (exec_connect env (S_init\<lparr>config := cfg\<rparr>)))) = None \<and>
         broker (fst (snd (exec_connect env (S_init\<lparr>config := cfg\<rparr>)))) = JStr ''not connected'' \<and>
         calls (snd (snd (exec_connect env (S_init\<lparr>config := cfg\<rparr>)))) = [] \<and>
         last (snd (snd (exec_connect env (S_init\<lparr>config := cfg\<rparr>))))
           = Print '' (-) Bootstrap server not configured''"
proof -
  have "map_of (config (S_init\<lparr>config := cfg\<rparr>)) ''bootstrap.servers'' = None"
    using assms by (simp add: dict_in_def)
  then have "exec_connect env (S_init\<lparr>config := cfg\<rparr>) =
      (None, S_init\<lparr>config := fst (default_group_id env cfg)\<rparr>,
       snd (default_group_id env cfg) @ [Print '' (-) Bootstrap server not configured''])"
    using exec_connect_no_bootstrap [of "S_init\<lparr>config := cfg\<rparr>" env] by simp
  then show ?thesis
    by (simp add: S_init_def default_group_id_def)
qed

theorem C5_connect_requires_bootstrap_witness:
  "\<not> dict_in ''bootstrap.servers'' [(''security.protocol'', JStr ''SSL'')] \<and>
   fst (exec_connect env_load S_tls_only) = None \<and>
   admin (fst (snd (exec_connect env_load S_tls_only))) = None \<and>
   consumer (fst (snd (exec_connect env_load S_tls_only))) = None \<and>
   broker (fst (snd (exec_connect env_load S_tls_only))) = JStr ''not connected'' \<and>
   calls (snd (snd (exec_connect env_load S_tls_only))) = []"
proof -
  have h: "\<not> dict_in ''bootstrap.servers'' [(''security.protocol'', JStr ''SSL'')]"
    by (simp add: dict_in_def)
  show ?thesis
    using h C5_connect_requires_bootstrap [OF h, of env_load]
    by (simp add: S_tls_only_def)
qed

lemma connect_admin_prints:
  "connect_admin env bs S = (r, S1, t) \<Longrightarrow>
   Print ('' (+) Group ID not configured, using: '' @ g) \<notin> set t"
  by (auto simp: connect_admin_def Let_def split: option.splits exc.splits)

lemma connect_consumer_prints:
  "connect_consumer env bs S = (r, S1, t) \<Longrightarrow>
   Print ('' (+) Group ID not configured, using: '' @ g) \<notin> set t"
  by (auto simp: connect_consumer_def Let_def split: option.splits exc.splits)

lemma exec_connect_keeps_group_id:
  assumes "dict_in ''group.id'' (config S)"
  shows "config (fst (snd (exec_connect env S))) = config S \<and>
         Print ('' (+) Group ID not configured, using: '' @ g) \<notin> set (snd (snd (exec_connect env S)))"
proof -
  have d: "default_group_id env (config S) = (config S, [])"
    using assms by (rule group_id_present_default)
  have cfg: "config (fst (snd (exec_connect env S))) = config S"
    using config_exec_connect [of env S] d by simp
  have "Print ('' (+) Group ID not configured, using: '' @ g) \<notin> set (snd (snd (exec_connect env S)))"
  proof (cases "map_of (config S) ''bootstrap.servers''")
    case None
    then show ?thesis using d by (simp add: exec_connect_no_bootstrap)
  next
    case (Some b)
    show ?thesis
    proof (cases "resolve_bootstrap env b")
      case (Raises e)
      with Some d show ?thesis by (simp add: exec_connect_raises_in_resolve)
    next
      case (Returns bs)
      obtain r1 S1 t1 where a: "connect_admin env bs (S\<lparr>config := config S\<rparr>) = (r1, S1, t1)"
        by (cases "connect_admin env bs (S\<lparr>config := config S\<rparr>)")
      obtain r2 S2 t2 where c: "connect_consumer env bs S1 = (r2, S2, t2)"
        by (cases "connect_consumer env bs S1")
      show ?thesis
        using exec_connect_resolved [OF Some Returns d] a c
          connect_admin_prints [OF a, of g] connect_consumer_prints [OF c, of g]
        by (cases r1) simp_all
    qed
  qed
  with cfg show ?thesis by simp
qed

lemma resolve_bootstrap_returns:
  "b \<noteq> JArr [] \<Longrightarrow> \<exists>bs. resolve_bootstrap env b = Returns bs"
  by (cases b) (simp_all add: resolve_bootstrap_def)

lemma connect_admin_constructed:
  "construct env AdminClient (admin_conf (config S) bs) = None \<Longrightarrow>
   connect_admin env bs S =
     (None, S\<lparr>admin := Some (Handle AdminClient (admin_conf (config S) bs)), broker := bs\<rparr>,
      [Call (Construct AdminClient (admin_conf (config S) bs)),
       Print '' (+) Admin client connected''])"
  by (simp add: connect_admin_def Let_def)

lemma connect_admin_kafka_failure:
  "construct env AdminClient (admin_conf (config S) bs) = Some (KafkaException msg) \<Longrightarrow>
   connect_admin env bs S =
     (None, S,
      [Call (Construct AdminClient (admin_conf (config S) bs)),
       Print ('' (-) Admin client connection failed: '' @ msg)])"
  by (simp add: connect_admin_def Let_def)

lemma connect_consumer_constructed:
  "construct env Consumer (consumer_conf (config S) bs) = None \<Longrightarrow>
   connect_consumer env bs S =
     (None, S\<lparr>consumer := Some (Handle Consumer (consumer_conf (config S) bs)), broker := bs\<rparr>,
      [Print '''', Call (Construct Consumer (consumer_conf (config S) bs)),
       Print '' (+) Consumer connected''])"
  by (simp add: connect_consumer_def Let_def)

lemma connect_consumer_kafka_failure:
  "construct env Consumer (consumer_conf (config S) bs) = Some (KafkaException msg) \<Longrightarrow>
   connect_consumer env bs S =
     (None, S,
      [Print '''', Call (Construct Consumer (consumer_conf (config S) bs)),
       Print ('' (-) Consumer connection failed: '' @ msg)])"
  by (simp add: connect_consumer_def Let_def)

lemma connect_consumer_broker:
  "connect_consumer env bs S = (r, S1, t) \<Longrightarrow> broker S = bs \<Longrightarrow> broker S1 = bs"
  by (auto simp: connect_consumer_def Let_def split: option.splits exc.splits)

lemma connect_admin_returns:
  assumes "\<forall>k d e. construct env k d = Some e \<longrightarrow> (\<exists>msg. e = KafkaException msg)"
  shows "fst (connect_admin env bs S) = None"
proof (cases "construct env AdminClient (admin_conf (config S) bs)")
  case None
  then show ?thesis by (simp add: connect_admin_constructed)
next
  case (Some e)
  with assms obtain msg where "e = KafkaException msg" by blast
  with Some show ?thesis by (simp add: connect_admin_kafka_failure)
qed

lemma connect_consumer_returns:
  assumes "\<forall>k d e. construct env k d = Some e \<longrightarrow> (\<exists>msg. e = KafkaException msg)"
  shows "fst (connect_consumer env bs S) = None"
proof (cases "construct env Consumer (consumer_conf (config S) bs)")
  case None
  then show ?thesis by (simp add: connect_consumer_constructed)
next
  case (Some e)
  with assms obtain msg where "e = KafkaException msg" by blast
  with Some show ?thesis by (simp add: connect_consumer_kafka_failure)
qed

text \<open>
  C9. When the configuration has no group identifier, \<open>exec_connect\<close> stores the
  generated one in the configuration before it looks for the bootstrap address: the
  configuration is changed even when the call then stops for a missing bootstrap
  address, and the next call keeps that identifier and announces no new one.
\<close>

theorem C9_group_id_written_into_config:
  assumes "\<not> dict_in ''group.id'' (config S)"
    and "exec_connect env S = (r, S1, t1)"
    and "exec_connect env' S1 = (r', S2, t2)"
  shows "config S1 = dict_set ''group.id'' (JStr (uuid4_hex env)) (config S) \<and>
         map_of (config S1) ''group.id'' = Some (JStr (uuid4_hex env)) \<and>
         (\<not> dict_in ''bootstrap.servers'' (config S) \<longrightarrow>
            r = None \<and>
            t1 = [Print ('' (+) Group ID not configured, using: '' @ uuid4_hex env), Print '''',
                  Print '' (-) Bootstrap server not configured'']) \<and>
         config S2 = config S1 \<and>
         (\<forall>g. Print ('' (+) Group ID not configured, using: '' @ g) \<notin> set t2)"
proof -
  have d: "default_group_id env (config S) =
      (dict_set ''group.id'' (JStr (uuid4_hex env)) (config S),
       [Print ('' (+) Group ID not configured, using: '' @ uuid4_hex env), Print ''''])"
    using assms(1) by (rule group_id_after_default)
  have c1: "config S1 = dict_set ''group.id'' (JStr (uuid4_hex env)) (config S)"
    using config_exec_connect [of env S] assms(2) d by simp
  then have g1: "map_of (config S1) ''group.id'' = Some (JStr (uuid4_hex env))"
    by (simp add: map_of_dict_set)
  then have "dict_in ''group.id'' (config S1)"
    by (simp add: dict_in_def)
  then have second: "config (fst (snd (exec_connect env' S1))) = config S1 \<and>
      (\<forall>g. Print ('' (+) Group ID not configured, using: '' @ g)
             \<notin> set (snd (snd (exec_connect env' S1))))"
    using exec_connect_keeps_group_id [of S1 env'] by simp
  have abort: "\<not> dict_in ''bootstrap.servers'' (config S) \<longrightarrow>
            r = None \<and>
            t1 = [Print ('' (+) Group ID not configured, using: '' @ uuid4_hex env), Print '''',
                  Print '' (-) Bootstrap server not configured'']"
  proof
    assume "\<not> dict_in ''bootstrap.servers'' (config S)"
    then have "map_of (config S) ''bootstrap.servers'' = None"
      by (simp add: dict_in_def)
    then show "r = None \<and>
            t1 = [Print ('' (+) Group ID not configured, using: '' @ uuid4_hex env), Print '''',
                  Print '' (-) Bootstrap server not configured'']"
      using exec_connect_no_bootstrap [of S env] assms(2) d by simp
  qed
  from c1 g1 abort second assms(3) show ?thesis
    by simp
qed

theorem C9_group_id_written_into_config_witness:
  "exec_connect env_load S_tls_only =
     (None,
      S_init\<lparr>config := [(''security.protocol'', JStr ''SSL''),
                         (''group.id'', JStr ''0f8fad5bd9cb469fa16570867728950e'')]\<rparr>,
      [Print '' (+) Group ID not configured, using: 0f8fad5bd9cb469fa16570867728950e'',
       Print '''', Print '' (-) Bootstrap server not configured'']) \<and>
   exec_connect env_other_draw
      (S_init\<lparr>config := [(''security.protocol'', JStr ''SSL''),
                         (''group.id'', JStr ''0f8fad5bd9cb469fa16570867728950e'')]\<rparr>) =
     (None,
      S_init\<lparr>config := [(''security.protocol'', JStr ''SSL''),
                         (''group.id'', JStr ''0f8fad5bd9cb469fa16570867728950e'')]\<rparr>,
      [Print '' (-) Bootstrap server not configured''])"
proof -
  have nogid: "\<not> dict_in ''group.id'' (config S_tls_only)"
    by (simp add: S_tls_only_def S_init_def dict_in_def)
  have first: "exec_connect env_load S_tls_only =
     (None,
      S_init\<lparr>config := [(''security.protocol'', JStr ''SSL''),
                         (''group.id'', JStr ''0f8fad5bd9cb469fa16570867728950e'')]\<rparr>,
      [Print '' (+) Group ID not configured, using: 0f8fad5bd9cb469fa16570867728950e'',
       Print '''', Print '' (-) Bootstrap server not configured''])"
    by (simp add: exec_connect_def default_group_id_def S_tls_only_def S_init_def dict_in_def
        env_load_def)
  have second: "exec_connect env_other_draw
      (S_init\<lparr>config := [(''security.protocol'', JStr ''SSL''),
                         (''group.id'', JStr ''0f8fad5bd9cb469fa16570867728950e'')]\<rparr>) =
     (None,
      S_init\<lparr>config := [(''security.protocol'', JStr ''SSL''),
                         (''group.id'', JStr ''0f8fad5bd9cb469fa16570867728950e'')]\<rparr>,
      [Print '' (-) Bootstrap server not configured''])"
    by (simp add: exec_connect_def default_group_id_def S_init_def dict_in_def
        env_other_draw_def env_load_def)
  show ?thesis
    using C9_group_id_written_into_config [OF nogid first second] first second
    by simp
qed

text \<open>
  C6, as amended. With a bootstrap address that resolves and no group identifier,
  \<open>exec_connect\<close> stores the identifier drawn from the random source under
  \<open>group.id\<close> and announces it first. A repeated call on the same session
  generates nothing: it keeps the stored identifier and announces none, whatever the
  random source would draw. The label becomes the resolved address when the admin
  client is constructed, or when the admin client fails with \<open>KafkaException\<close> and
  the consumer is constructed; when both fail with \<open>KafkaException\<close> the call
  returns with label and handles as they were.
\<close>

theorem C6_connect_generates_group_id:
  assumes "\<not> dict_in ''group.id'' (config S)"
    and "map_of (config S) ''bootstrap.servers'' = Some b"
    and "resolve_bootstrap env b = Returns bs"
    and "exec_connect env S = (r, S', t)"
    and "cfg = dict_set ''group.id'' (JStr (uuid4_hex env)) (config S)"
  shows "config S' = cfg \<and>
         map_of (config S') ''group.id'' = Some (JStr (uuid4_hex env)) \<and>
         take 2 t = [Print ('' (+) Group ID not configured, using: '' @ uuid4_hex env), Print ''''] \<and>
         (construct env AdminClient (admin_conf cfg bs) = None \<longrightarrow> broker S' = bs) \<and>
         (\<forall>m. construct env AdminClient (admin_conf cfg bs) = Some (KafkaException m) \<and>
              construct env Consumer (consumer_conf cfg bs) = None \<longrightarrow> broker S' = bs) \<and>
         (\<forall>m m'. construct env AdminClient (admin_conf cfg bs) = Some (KafkaException m) \<and>
              construct env Consumer (consumer_conf cfg bs) = Some (KafkaException m') \<longrightarrow>
              r = None \<and> broker S' = broker S \<and> admin S' = admin S \<and> consumer S' = consumer S) \<and>
         (\<forall>env2 r2 S2 t2. exec_connect env2 S' = (r2, S2, t2) \<longrightarrow>
              config S2 = config S' \<and>
              map_of (config S2) ''group.id'' = Some (JStr (uuid4_hex env)) \<and>
              (\<forall>g. Print ('' (+) Group ID not configured, using: '' @ g) \<notin> set t2))"
proof -
  let ?line = "Print ('' (+) Group ID not configured, using: '' @ uuid4_hex env)"
  let ?S0 = "S\<lparr>config := cfg\<rparr>"
  have d: "default_group_id env (config S) = (cfg, [?line, Print ''''])"
    using assms(1,5) by (simp add: group_id_after_default)
  have c: "config S' = cfg"
    using config_exec_connect [of env S] assms(4) d by simp
  then have g: "map_of (config S') ''group.id'' = Some (JStr (uuid4_hex env))"
    using assms(5) by (simp add: map_of_dict_set)
  have run: "exec_connect env S =
           (case connect_admin env bs ?S0 of
              (Some e, S1, t1) \<Rightarrow> (Some e, S1, [?line, Print ''''] @ t1)
            | (None, S1, t1) \<Rightarrow>
                (case connect_consumer env bs S1 of
                   (r, S2, t2) \<Rightarrow> (r, S2, [?line, Print ''''] @ t1 @ t2)))"
    using assms(2,3) d by (rule exec_connect_resolved)
  have t: "take 2 t = [?line, Print '''']"
    using run assms(4) by (auto split: prod.splits option.splits)
  have ok: "broker S' = bs" if a: "construct env AdminClient (admin_conf cfg bs) = None"
  proof -
    let ?S1 = "?S0\<lparr>admin := Some (Handle AdminClient (admin_conf cfg bs)), broker := bs\<rparr>"
    obtain r2 S2 t2 where k: "connect_consumer env bs ?S1 = (r2, S2, t2)"
      by (cases "connect_consumer env bs ?S1")
    have "broker S2 = bs"
      using connect_consumer_broker [OF k] by simp
    then show ?thesis
      using run assms(4) a k connect_admin_constructed [of env ?S0 bs] by simp
  qed
  have late: "broker S' = bs"
    if a: "construct env AdminClient (admin_conf cfg bs) = Some (KafkaException m)"
      and k: "construct env Consumer (consumer_conf cfg bs) = None" for m
    using run assms(4) connect_admin_kafka_failure [of env ?S0 bs m]
      connect_consumer_constructed [of env ?S0 bs] a k by simp
  have none: "r = None \<and> broker S' = broker S \<and> admin S' = admin S \<and> consumer S' = consumer S"
    if a: "construct env AdminClient (admin_conf cfg bs) = Some (KafkaException m)"
      and k: "construct env Consumer (consumer_conf cfg bs) = Some (KafkaException m')" for m m'
    using run assms(4) connect_admin_kafka_failure [of env ?S0 bs m]
      connect_consumer_kafka_failure [of env ?S0 bs m'] a k by auto
  have stored: "dict_in ''group.id'' (config S')"
    using g by (simp add: dict_in_def)
  have again: "config S2 = config S' \<and>
              map_of (config S2) ''group.id'' = Some (JStr (uuid4_hex env)) \<and>
              (\<forall>g. Print ('' (+) Group ID not configured, using: '' @ g) \<notin> set t2)"
    if "exec_connect env2 S' = (r2, S2, t2)" for env2 r2 S2 t2
    using exec_connect_keeps_group_id [OF stored, of env2] that g by simp
  from c g t ok late none again show ?thesis
    by blast
qed

theorem C6_label_and_repeated_call_counterexample:
  "\<not> dict_in ''group.id'' (config S_bootstrap) \<and>
   map_of (config S_bootstrap) ''bootstrap.servers'' = Some (JStr ''kafka1:9092'') \<and>
   resolve_bootstrap env_down (JStr ''kafka1:9092'') = Returns (JStr ''kafka1:9092'') \<and>
   fst (exec_connect env_down S_bootstrap) = None \<and>
   broker (fst (snd (exec_connect env_down S_bootstrap))) = JStr ''not connected'' \<and>
   uuid4_hex env_other_draw \<noteq> uuid4_hex env_load \<and>
   map_of (config (fst (snd (exec_connect env_load S_bootstrap)))) ''group.id''
     = Some (JStr ''0f8fad5bd9cb469fa16570867728950e'') \<and>
   map_of (config (fst (snd (exec_connect env_other_draw
                               (fst (snd (exec_connect env_load S_bootstrap))))))) ''group.id''
     = Some (JStr ''0f8fad5bd9cb469fa16570867728950e'')"
  by (simp add: S_bootstrap_def S_init_def dict_in_def resolve_bootstrap_def exec_connect_def
      default_group_id_def connect_admin_def connect_consumer_def env_down_def env_load_def
      env_other_draw_def Let_def)

theorem C6_connect_generates_group_id_witness:
  "exec_connect env_admin_down S_bootstrap =
     (None,
      \<lparr>config = [(''bootstrap.servers'', JStr ''kafka1:9092''),
                 (''group.id'', JStr ''0f8fad5bd9cb469fa16570867728950e'')],
       admin = None,
       consumer = Some (Handle Consumer
                  [(''bootstrap.servers'', JStr ''kafka1:9092''),
                   (''group.id'', JStr ''0f8fad5bd9cb469fa16570867728950e''),
                   (''enable.partition.eof'', JBool True)]),
       broker = JStr ''kafka1:9092''\<rparr>,
      [Print '' (+) Group ID not configured, using: 0f8fad5bd9cb469fa16570867728950e'',
       Print '''',
       Call (Construct AdminClient [(''bootstrap.servers'', JStr ''kafka1:9092'')]),
       Print '' (-) Admin client connection failed: Failed to create handle'',
       Print '''',
       Call (Construct Consumer
                  [(''bootstrap.servers'', JStr ''kafka1:9092''),
                   (''group.id'', JStr ''0f8fad5bd9cb469fa16570867728950e''),
                   (''enable.partition.eof'', JBool True)]),
       Print '' (+) Consumer connected'']) \<and>
   map_of (config (fst (snd (exec_connect env_other_draw
                               (fst (snd (exec_connect env_admin_down S_bootstrap))))))) ''group.id''
     = Some (JStr ''0f8fad5bd9cb469fa16570867728950e'')"
proof -
  let ?cfg = "[(''bootstrap.servers'', JStr ''kafka1:9092''),
               (''group.id'', JStr ''0f8fad5bd9cb469fa16570867728950e'')]"
  let ?S' = "\<lparr>config = ?cfg, admin = None,
       consumer = Some (Handle Consumer
                  [(''bootstrap.servers'', JStr ''kafka1:9092''),
                   (''group.id'', JStr ''0f8fad5bd9cb469fa16570867728950e''),
                   (''enable.partition.eof'', JBool True)]),
       broker = JStr ''kafka1:9092''\<rparr>"
  let ?t = "[Print '' (+) Group ID not configured, using: 0f8fad5bd9cb469fa16570867728950e'',
       Print '''',
       Call (Construct AdminClient [(''bootstrap.servers'', JStr ''kafka1:9092'')]),
       Print '' (-) Admin client connection failed: Failed to create handle'',
       Print '''',
       Call (Construct Consumer
                  [(''bootstrap.servers'', JStr ''kafka1:9092''),
                   (''group.id'', JStr ''0f8fad5bd9cb469fa16570867728950e''),
                   (''enable.partition.eof'', JBool True)]),
       Print '' (+) Consumer connected'']"
  have nogid: "\<not> dict_in ''group.id'' (config S_bootstrap)"
    by (simp add: S_bootstrap_def S_init_def dict_in_def)
  have boot: "map_of (config S_bootstrap) ''bootstrap.servers'' = Some (JStr ''kafka1:9092'')"
    by (simp add: S_bootstrap_def S_init_def)
  have res: "resolve_bootstrap env_admin_down (JStr ''kafka1:9092'') = Returns (JStr ''kafka1:9092'')"
    by (simp add: resolve_bootstrap_def)
  have run: "exec_connect env_admin_down S_bootstrap = (None, ?S', ?t)"
    by (simp add: S_bootstrap_def S_init_def dict_in_def resolve_bootstrap_def exec_connect_def
      default_group_id_def connect_admin_def connect_consumer_def env_admin_down_def env_load_def
      admin_conf_def consumer_conf_def Let_def)
  have cfg: "?cfg = dict_set ''group.id'' (JStr (uuid4_hex env_admin_down)) (config S_bootstrap)"
    by (simp add: S_bootstrap_def S_init_def env_admin_down_def env_load_def)
  obtain r2 S2 t2 where again: "exec_connect env_other_draw ?S' = (r2, S2, t2)"
    by (cases "exec_connect env_other_draw ?S'")
  have "map_of (config S2) ''group.id'' = Some (JStr (uuid4_hex env_admin_down))"
    using C6_connect_generates_group_id [OF nogid boot res run cfg] again by blast
  then have "map_of (config (fst (snd (exec_connect env_other_draw ?S')))) ''group.id''
      = Some (JStr ''0f8fad5bd9cb469fa16570867728950e'')"
    using again by (simp add: env_admin_down_def env_load_def)
  with run show ?thesis
    by simp
qed

text \<open>
  C7, as amended. When the bootstrap value is not the empty list and the constructors
  raise nothing but \<open>KafkaException\<close>, \<open>exec_connect\<close> returns normally. If
  then the admin client fails and the consumer is constructed, the admin field is as
  before (absent in a fresh session), the consumer handle is present and the label is
  the resolved address; and the other way round.
\<close>

theorem C7_connect_isolates_kafka_failures:
  assumes "map_of (config S) ''bootstrap.servers'' \<noteq> Some (JArr [])"
    and "\<forall>k d e. construct env k d = Some e \<longrightarrow> (\<exists>msg. e = KafkaException msg)"
    and "exec_connect env S = (r, S', t)"
    and "cfg = fst (default_group_id env (config S))"
  shows "r = None \<and>
         (\<forall>b bs. map_of (config S) ''bootstrap.servers'' = Some b \<and>
                 resolve_bootstrap env b = Returns bs \<and>
                 construct env AdminClient (admin_conf cfg bs) \<noteq> None \<and>
                 construct env Consumer (consumer_conf cfg bs) = None \<longrightarrow>
                 admin S' = admin S \<and>
                 consumer S' = Some (Handle Consumer (consumer_conf cfg bs)) \<and>
                 broker S' = bs) \<and>
         (\<forall>b bs. map_of (config S) ''bootstrap.servers'' = Some b \<and>
                 resolve_bootstrap env b = Returns bs \<and>
                 construct env AdminClient (admin_conf cfg bs) = None \<and>
                 construct env Consumer (consumer_conf cfg bs) \<noteq> None \<longrightarrow>
                 admin S' = Some (Handle AdminClient (admin_conf cfg bs)) \<and>
                 consumer S' = consumer S \<and>
                 broker S' = bs)"
proof -
  obtain t0 where d: "default_group_id env (config S) = (cfg, t0)"
    using assms(4) by (cases "default_group_id env (config S)") simp
  let ?S0 = "S\<lparr>config := cfg\<rparr>"
  have run: "exec_connect env S =
           (case connect_admin env bs ?S0 of
              (Some e, S1, t1) \<Rightarrow> (Some e, S1, t0 @ t1)
            | (None, S1, t1) \<Rightarrow>
                (case connect_consumer env bs S1 of (r, S2, t2) \<Rightarrow> (r, S2, t0 @ t1 @ t2)))"
    if "map_of (config S) ''bootstrap.servers'' = Some b" and "resolve_bootstrap env b = Returns bs"
    for b bs
    using that d by (rule exec_connect_resolved)
  have returns: "r = None"
  proof (cases "map_of (config S) ''bootstrap.servers''")
    case None
    then show ?thesis
      using exec_connect_no_bootstrap [of S env] assms(3) by simp
  next
    case (Some b)
    with assms(1) have "b \<noteq> JArr []" by simp
    then obtain bs where res: "resolve_bootstrap env b = Returns bs"
      using resolve_bootstrap_returns by blast
    obtain r1 S1 t1 where a: "connect_admin env bs ?S0 = (r1, S1, t1)"
      by (cases "connect_admin env bs ?S0")
    obtain r2 S2 t2 where k: "connect_consumer env bs S1 = (r2, S2, t2)"
      by (cases "connect_consumer env bs S1")
    have "r1 = None"
      using connect_admin_returns [OF assms(2), of bs ?S0] a by simp
    moreover have "r2 = None"
      using connect_consumer_returns [OF assms(2), of bs S1] k by simp
    ultimately show ?thesis
      using run [OF Some res] assms(3) a k by simp
  qed
  have consumer_only: "admin S' = admin S \<and>
                 consumer S' = Some (Handle Consumer (consumer_conf cfg bs)) \<and> broker S' = bs"
    if b: "map_of (config S) ''bootstrap.servers'' = Some b"
      and res: "resolve_bootstrap env b = Returns bs"
      and a: "construct env AdminClient (admin_conf cfg bs) \<noteq> None"
      and k: "construct env Consumer (consumer_conf cfg bs) = None" for b bs
  proof -
    from a assms(2) obtain msg
      where "construct env AdminClient (admin_conf cfg bs) = Some (KafkaException msg)"
      by (cases "construct env AdminClient (admin_conf cfg bs)") blast+
    then show ?thesis
      using run [OF b res] assms(3) k connect_admin_kafka_failure [of env ?S0 bs msg]
        connect_consumer_constructed [of env ?S0 bs]
      by auto
  qed
  have admin_only: "admin S' = Some (Handle AdminClient (admin_conf cfg bs)) \<and>
                 consumer S' = consumer S \<and> broker S' = bs"
    if b: "map_of (config S) ''bootstrap.servers'' = Some b"
      and res: "resolve_bootstrap env b = Returns bs"
      and a: "construct env AdminClient (admin_conf cfg bs) = None"
      and k: "construct env Consumer (consumer_conf cfg bs) \<noteq> None" for b bs
  proof -
    let ?S1 = "?S0\<lparr>admin := Some (Handle AdminClient (admin_conf cfg bs)), broker := bs\<rparr>"
    from k assms(2) obtain msg
      where "construct env Consumer (consumer_conf cfg bs) = Some (KafkaException msg)"
      by (cases "construct env Consumer (consumer_conf cfg bs)") blast+
    then show ?thesis
      using run [OF b res] assms(3) a connect_admin_constructed [of env ?S0 bs]
        connect_consumer_kafka_failure [of env ?S1 bs msg]
      by auto
  qed
  from returns consumer_only admin_only show ?thesis
    by blast
qed

theorem C7_exception_leaves_connect_counterexample:
  "fst (exec_connect env_load S_no_seeds) = Some IndexError \<and>
   fst (exec_connect env_value_error S_bootstrap) = Some (OtherException ''ValueError'')"
  by (simp add: S_no_seeds_def S_bootstrap_def S_init_def dict_in_def resolve_bootstrap_def
      exec_connect_def default_group_id_def connect_admin_def connect_consumer_def
      env_value_error_def env_load_def Let_def)

theorem C7_connect_isolates_kafka_failures_witness:
  "fst (exec_connect env_admin_down S_bootstrap) = None \<and>
   admin (fst (snd (exec_connect env_admin_down S_bootstrap))) = None \<and>
   consumer (fst (snd (exec_connect env_admin_down S_bootstrap))) =
     Some (Handle Consumer
            [(''bootstrap.servers'', JStr ''kafka1:9092''),
             (''group.id'', JStr ''0f8fad5bd9cb469fa16570867728950e''),
             (''enable.partition.eof'', JBool True)]) \<and>
   broker (fst (snd (exec_connect env_admin_down S_bootstrap))) = JStr ''kafka1:9092''"
proof -
  let ?cfg = "[(''bootstrap.servers'', JStr ''kafka1:9092''),
               (''group.id'', JStr ''0f8fad5bd9cb469fa16570867728950e'')]"
  obtain r S' t where run: "exec_connect env_admin_down S_bootstrap = (r, S', t)"
    by (cases "exec_connect env_admin_down S_bootstrap")
  have seeds: "map_of (config S_bootstrap) ''bootstrap.servers'' \<noteq> Some (JArr [])"
    by (simp add: S_bootstrap_def S_init_def)
  have kafka: "\<forall>k d e. construct env_admin_down k d = Some e \<longrightarrow> (\<exists>msg. e = KafkaException msg)"
    by (simp add: env_admin_down_def env_load_def)
  have cfg: "?cfg = fst (default_group_id env_admin_down (config S_bootstrap))"
    by (simp add: default_group_id_def dict_in_def S_bootstrap_def S_init_def
        env_admin_down_def env_load_def)
  have boot: "map_of (config S_bootstrap) ''bootstrap.servers'' = Some (JStr ''kafka1:9092'') \<and>
      resolve_bootstrap env_admin_down (JStr ''kafka1:9092'') = Returns (JStr ''kafka1:9092'') \<and>
      construct env_admin_down AdminClient (admin_conf ?cfg (JStr ''kafka1:9092'')) \<noteq> None \<and>
      construct env_admin_down Consumer (consumer_conf ?cfg (JStr ''kafka1:9092'')) = None"
    by (simp add: S_bootstrap_def S_init_def resolve_bootstrap_def env_admin_down_def env_load_def)
  have start: "admin S_bootstrap = None"
    by (simp add: S_bootstrap_def S_init_def)
  have "r = None \<and> admin S' = admin S_bootstrap \<and>
        consumer S' = Some (Handle Consumer (consumer_conf ?cfg (JStr ''kafka1:9092''))) \<and>
        broker S' = JStr ''kafka1:9092''"
    using C7_connect_isolates_kafka_failures [OF seeds kafka run cfg] boot by blast
  with run start show ?thesis
    by (simp add: consumer_conf_def)
qed

section \<open>Cluster discovery\<close>

lemma str_in_iff: "str_in a b \<longleftrightarrow> (\<exists>p s. b = p @ a @ s)"
proof (induction b)
  case Nil
  then show ?case by auto
next
  case (Cons c b)
  show ?case
  proof
    assume "str_in a (c # b)"
    then consider "prefix a (c # b)" | "str_in a b" by auto
    then show "\<exists>p s. c # b = p @ a @ s"
    proof cases
      case 1
      then obtain s where "c # b = a @ s" by (auto simp: prefix_def)
      then have "c # b = [] @ a @ s" by simp
      then show ?thesis by blast
    next
      case 2
      with Cons obtain p s where "b = p @ a @ s" by blast
      then have "c # b = (c # p) @ a @ s" by simp
      then show ?thesis by blast
    qed
  next
    assume "\<exists>p s. c # b = p @ a @ s"
    then obtain p s where ps: "c # b = p @ a @ s" by blast
    show "str_in a (c # b)"
    proof (cases p)
      case Nil
      with ps have "prefix a (c # b)" by (simp add: prefix_def)
      then show ?thesis by simp
    next
      case (Cons c' p')
      with ps have "b = p' @ a @ s" by simp
      with Cons.IH have "str_in a b" by blast
      then show ?thesis by simp
    qed
  qed
qed

lemma config_rows_keep_substrings:
  "set (config_rows entries) =
     {entry_row e | k e. (k, e) \<in> set entries \<and> (\<exists>p s. ''ssl.client.auth'' = p @ k @ s)}"
  unfolding config_rows_def
  by (auto simp: str_in_iff simp del: str_in.simps) force

lemma describe_brokers_isolated:
  assumes "\<forall>res e. describe_configs env a res = Raises e \<longrightarrow> (\<exists>msg. e = KafkaException msg)"
  shows "fst (describe_brokers env a bs) = None \<and>
         calls (snd (describe_brokers env a bs)) = map (\<lambda>b. DescribeConfigs a (str_int (idb b))) bs"
proof (induction bs)
  case Nil
  then show ?case by simp
next
  case (Cons b bs)
  obtain r t where rest: "describe_brokers env a bs = (r, t)"
    by (cases "describe_brokers env a bs")
  show ?case
  proof (cases "describe_configs env a (str_int (idb b))")
    case (Returns entries)
    with Cons rest show ?thesis by (simp add: config_table_def Let_def)
  next
    case (Raises e)
    with assms obtain msg where "e = KafkaException msg" by blast
    with Raises Cons rest show ?thesis by (simp add: Let_def)
  qed
qed

lemma describe_brokers_prints:
  "Print '' (-) Not connected'' \<notin> set (snd (describe_brokers env a bs))"
proof (induction bs)
  case Nil
  then show ?case by simp
next
  case (Cons b bs)
  obtain r t where rest: "describe_brokers env a bs = (r, t)"
    by (cases "describe_brokers env a bs")
  with Cons show ?case
    by (auto simp: config_table_def Let_def split: outcome.splits exc.splits)
qed

lemma query_meta_cases:
  "list_topics env h = Returns m \<Longrightarrow> query_meta env h = (None, Some m, [Call (ListTopics h)])"
  by (simp add: query_meta_def)

lemma exec_cluster_with_meta:
  assumes "(case adm of Some a \<Rightarrow> Some a | None \<Rightarrow> con) = Some h"
    and "list_topics env h = Returns m"
  shows "exec_cluster env adm con =
           (case adm of
              None \<Rightarrow>
                (None,
                 [Call (ListTopics h), Print ('' (+) Cluster ID: '' @ cluster_id m), Print '''']
                 @ broker_metadata m)
            | Some a \<Rightarrow>
                (fst (describe_brokers env a (map snd (brokers m))),
                 [Call (ListTopics h), Print ('' (+) Cluster ID: '' @ cluster_id m), Print '''']
                 @ broker_metadata m @ snd (describe_brokers env a (map snd (brokers m)))))"
proof (cases adm)
  case None
  with assms have "con = Some h" by simp
  with None assms(2) show ?thesis
    by (simp add: exec_cluster_def fetch_meta_def query_meta_cases)
next
  case (Some a)
  with assms have "a = h" by simp
  with Some assms(2) show ?thesis
    by (simp add: exec_cluster_def fetch_meta_def query_meta_cases split: prod.splits)
qed

lemma dict_in_keys: "dict_in k d \<longleftrightarrow> k \<in> fst ` set d"
  by (simp add: dict_in_def map_of_eq_None_iff)

lemma describe_brokers_print_shape:
  "Print s \<in> set (snd (describe_brokers env a bs)) \<Longrightarrow>
   \<exists>i. s = '' (-) Could not describe broker '' @ str_int i"
proof (induction bs)
  case Nil
  then show ?case by simp
next
  case (Cons b bs)
  obtain r t where rest: "describe_brokers env a bs = (r, t)"
    by (cases "describe_brokers env a bs")
  with Cons show ?case
    by (auto simp: config_table_def Let_def split: outcome.splits exc.splits)
qed

text \<open>
  C8. Once \<open>exec_cluster\<close> has a metadata snapshot, its output is the cluster
  line, the origin-broker name, the broker table sorted by ID, then one line for the
  origin broker ID and one for the controller ID, then the per-broker fetches if there
  is an admin handle. Each of the two lines is decided by membership of the ID among
  the keys of the snapshot's brokers: the line that reports the ID as valid is printed
  exactly when the ID is there, the line that calls it invalid exactly when it is not.
  Neither outcome raises or stops the call: the result is that of the per-broker
  fetches, which depends on the brokers alone, and a consumer-only session returns
  normally.
\<close>

theorem C8_origin_and_controller_validated:
  assumes "(case adm of Some a \<Rightarrow> Some a | None \<Rightarrow> con) = Some h"
    and "list_topics env h = Returns m"
    and "exec_cluster env adm con = (r, t)"
  shows "t = [Call (ListTopics h),
              Print ('' (+) Cluster ID: '' @ cluster_id m), Print '''',
              Print ('' (+) Metadata origin broker name: '' @ orig_broker_name m), Print '''',
              Tprint ([CStr ''ID'', CStr ''Host'', CStr ''Port'']
                      # map (\<lambda>b. [CInt (idb b), CStr (host b), CInt (port b)])
                            (sort_key idb (map snd (brokers m)))),
              Print '''',
              (if orig_broker_id m \<in> fst ` set (brokers m)
               then Print ('' (+) Metadata origin broker ID: '' @ str_int (orig_broker_id m))
               else Print ('' (-) Invalid metadata origin broker ID: ''
                           @ str_int (orig_broker_id m))),
              Print '''',
              (if controller_id m \<in> fst ` set (brokers m)
               then Print ('' (+) Controller broker ID: '' @ str_int (controller_id m))
               else Print ('' (-) Invalid controller broker ID: '' @ str_int (controller_id m))),
              Print '''']
             @ (case adm of None \<Rightarrow> []
                | Some a \<Rightarrow> snd (describe_brokers env a (map snd (brokers m)))) \<and>
         r = (case adm of None \<Rightarrow> None
              | Some a \<Rightarrow> fst (describe_brokers env a (map snd (brokers m)))) \<and>
         (Print ('' (+) Metadata origin broker ID: '' @ str_int (orig_broker_id m)) \<in> set t
            \<longleftrightarrow> orig_broker_id m \<in> fst ` set (brokers m)) \<and>
         (Print ('' (-) Invalid metadata origin broker ID: '' @ str_int (orig_broker_id m)) \<in> set t
            \<longleftrightarrow> orig_broker_id m \<notin> fst ` set (brokers m)) \<and>
         (Print ('' (+) Controller broker ID: '' @ str_int (controller_id m)) \<in> set t
            \<longleftrightarrow> controller_id m \<in> fst ` set (brokers m)) \<and>
         (Print ('' (-) Invalid controller broker ID: '' @ str_int (controller_id m)) \<in> set t
            \<longleftrightarrow> controller_id m \<notin> fst ` set (brokers m))"
proof -
  let ?loop = "case adm of None \<Rightarrow> []
               | Some a \<Rightarrow> snd (describe_brokers env a (map snd (brokers m)))"
  let ?front = "[Call (ListTopics h),
              Print ('' (+) Cluster ID: '' @ cluster_id m), Print '''',
              Print ('' (+) Metadata origin broker name: '' @ orig_broker_name m), Print '''',
              Tprint ([CStr ''ID'', CStr ''Host'', CStr ''Port'']
                      # map (\<lambda>b. [CInt (idb b), CStr (host b), CInt (port b)])
                            (sort_key idb (map snd (brokers m)))),
              Print '''',
              (if orig_broker_id m \<in> fst ` set (brokers m)
               then Print ('' (+) Metadata origin broker ID: '' @ str_int (orig_broker_id m))
               else Print ('' (-) Invalid metadata origin broker ID: ''
                           @ str_int (orig_broker_id m))),
              Print '''',
              (if controller_id m \<in> fst ` set (brokers m)
               then Print ('' (+) Controller broker ID: '' @ str_int (controller_id m))
               else Print ('' (-) Invalid controller broker ID: '' @ str_int (controller_id m))),
              Print '''']"
  have t: "t = ?front @ ?loop"
    and r: "r = (case adm of None \<Rightarrow> None
              | Some a \<Rightarrow> fst (describe_brokers env a (map snd (brokers m))))"
    using exec_cluster_with_meta [OF assms(1,2)] assms(3)
    by (auto simp: broker_metadata_def dict_in_keys split: option.splits)
  have shape: "\<exists>i. s = '' (-) Could not describe broker '' @ str_int i"
    if "Print s \<in> set ?loop" for s
    using that describe_brokers_print_shape by (cases adm) auto
  have l1: "Print ('' (+) Metadata origin broker ID: '' @ x) \<notin> set ?loop" for x
    using shape [of "'' (+) Metadata origin broker ID: '' @ x"] by auto
  have l2: "Print ('' (-) Invalid metadata origin broker ID: '' @ x) \<notin> set ?loop" for x
    using shape [of "'' (-) Invalid metadata origin broker ID: '' @ x"] by auto
  have l3: "Print ('' (+) Controller broker ID: '' @ x) \<notin> set ?loop" for x
    using shape [of "'' (+) Controller broker ID: '' @ x"] by auto
  have l4: "Print ('' (-) Invalid controller broker ID: '' @ x) \<notin> set ?loop" for x
    using shape [of "'' (-) Invalid controller broker ID: '' @ x"] by auto
  have o1: "Print ('' (+) Metadata origin broker ID: '' @ str_int (orig_broker_id m)) \<in> set t
            \<longleftrightarrow> orig_broker_id m \<in> fst ` set (brokers m)"
    unfolding t using l1 by simp
  have o2: "Print ('' (-) Invalid metadata origin broker ID: '' @ str_int (orig_broker_id m)) \<in> set t
            \<longleftrightarrow> orig_broker_id m \<notin> fst ` set (brokers m)"
    unfolding t using l2 by simp
  have c1: "Print ('' (+) Controller broker ID: '' @ str_int (controller_id m)) \<in> set t
            \<longleftrightarrow> controller_id m \<in> fst ` set (brokers m)"
    unfolding t using l3 by simp
  have c2: "Print ('' (-) Invalid controller broker ID: '' @ str_int (controller_id m)) \<in> set t
            \<longleftrightarrow> controller_id m \<notin> fst ` set (brokers m)"
    unfolding t using l4 by simp
  from t r o1 o2 c1 c2 show ?thesis
    by blast
qed

theorem C8_origin_and_controller_validated_witness:
  "exec_cluster env_stale None (Some consumer_handle) =
     (None,
      [Call (ListTopics consumer_handle),
       Print '' (+) Cluster ID: lkc-7f3a'', Print '''',
       Print '' (+) Metadata origin broker name: kafka2.internal:9092/2'', Print '''',
       Tprint [[CStr ''ID'', CStr ''Host'', CStr ''Port''],
               [CInt 1, CStr ''kafka1.internal'', CInt 9092],
               [CInt 2, CStr ''kafka2.internal'', CInt 9092]],
       Print '''',
       Print '' (+) Metadata origin broker ID: 2'', Print '''',
       Print '' (-) Invalid controller broker ID: 5'', Print '''']) \<and>
   exec_cluster env_foreign None (Some consumer_handle) =
     (None,
      [Call (ListTopics consumer_handle),
       Print '' (+) Cluster ID: lkc-7f3a'', Print '''',
       Print '' (+) Metadata origin broker name: kafka7.internal:9092/7'', Print '''',
       Tprint [[CStr ''ID'', CStr ''Host'', CStr ''Port''],
               [CInt 1, CStr ''kafka1.internal'', CInt 9092],
               [CInt 2, CStr ''kafka2.internal'', CInt 9092]],
       Print '''',
       Print '' (-) Invalid metadata origin broker ID: 7'', Print '''',
       Print '' (+) Controller broker ID: 1'', Print '''']) \<and>
   Print ('' (+) Metadata origin broker ID: '' @ str_int 7)
     \<notin> set (snd (exec_cluster env_foreign None (Some consumer_handle))) \<and>
   Print ('' (+) Controller broker ID: '' @ str_int 5)
     \<notin> set (snd (exec_cluster env_stale None (Some consumer_handle)))"
proof -
  have h: "(case None of Some a \<Rightarrow> Some a | None \<Rightarrow> Some consumer_handle) = Some consumer_handle"
    by simp
  have m1: "list_topics env_stale consumer_handle = Returns meta_stale"
    by (simp add: env_stale_def)
  have m2: "list_topics env_foreign consumer_handle = Returns meta_foreign"
    by (simp add: env_foreign_def)
  obtain r1 t1 where run1: "exec_cluster env_stale None (Some consumer_handle) = (r1, t1)"
    by (cases "exec_cluster env_stale None (Some consumer_handle)")
  obtain r2 t2 where run2: "exec_cluster env_foreign None (Some consumer_handle) = (r2, t2)"
    by (cases "exec_cluster env_foreign None (Some consumer_handle)")
  have ids1: "orig_broker_id meta_stale = 2" "controller_id meta_stale = 5"
    "brokers meta_stale = [(1, kafka1), (2, kafka2)]"
    "cluster_id meta_stale = ''lkc-7f3a''" "orig_broker_name meta_stale = ''kafka2.internal:9092/2''"
    by (simp_all add: meta_stale_def)
  have ids2: "orig_broker_id meta_foreign = 7" "controller_id meta_foreign = 1"
    "brokers meta_foreign = [(1, kafka1), (2, kafka2)]"
    "cluster_id meta_foreign = ''lkc-7f3a''"
    "orig_broker_name meta_foreign = ''kafka7.internal:9092/7''"
    by (simp_all add: meta_foreign_def)
  have digits: "str_int 2 = ''2''" "str_int 5 = ''5''" "str_int 7 = ''7''" "str_int 1 = ''1''"
    by (simp_all add: str_int_def)
  have rows: "sort_key idb [kafka1, kafka2] = [kafka1, kafka2]"
    by (simp add: kafka1_def kafka2_def)
  have cells: "idb kafka1 = 1" "idb kafka2 = 2" "host kafka1 = ''kafka1.internal''"
    "host kafka2 = ''kafka2.internal''" "port kafka1 = 9092" "port kafka2 = 9092"
    by (simp_all add: kafka1_def kafka2_def)
  note first = C8_origin_and_controller_validated [OF h m1 run1, unfolded ids1]
  note second = C8_origin_and_controller_validated [OF h m2 run2, unfolded ids2]
  have a: "r1 = None" "r2 = None"
    using first second by simp_all
  have b: "t1 = [Call (ListTopics consumer_handle),
       Print '' (+) Cluster ID: lkc-7f3a'', Print '''',
       Print '' (+) Metadata origin broker name: kafka2.internal:9092/2'', Print '''',
       Tprint [[CStr ''ID'', CStr ''Host'', CStr ''Port''],
               [CInt 1, CStr ''kafka1.internal'', CInt 9092],
               [CInt 2, CStr ''kafka2.internal'', CInt 9092]],
       Print '''',
       Print '' (+) Metadata origin broker ID: 2'', Print '''',
       Print '' (-) Invalid controller broker ID: 5'', Print '''']"
    using first by (simp add: digits rows cells)
  have c: "t2 = [Call (ListTopics consumer_handle),
       Print '' (+) Cluster ID: lkc-7f3a'', Print '''',
       Print '' (+) Metadata origin broker name: kafka7.internal:9092/7'', Print '''',
       Tprint [[CStr ''ID'', CStr ''Host'', CStr ''Port''],
               [CInt 1, CStr ''kafka1.internal'', CInt 9092],
               [CInt 2, CStr ''kafka2.internal'', CInt 9092]],
       Print '''',
       Print '' (-) Invalid metadata origin broker ID: 7'', Print '''',
       Print '' (+) Controller broker ID: 1'', Print '''']"
    using second by (simp add: digits rows cells)
  have d: "Print ('' (+) Metadata origin broker ID: '' @ str_int 7) \<notin> set t2"
    using second by simp
  have e: "Print ('' (+) Controller broker ID: '' @ str_int 5) \<notin> set t1"
    using first by simp
  from a b c d e run1 run2 show ?thesis
    by simp
qed

text \<open>
  C1. Specified: an entry whose name is not exactly \<open>ssl.client.auth\<close> never
  becomes a row of the rendered table. The filter of line 305 tests the key against a
  parenthesised string, which is the substring test (\<open>config_rows_keep_substrings\<close>):
  when the fetch returns entries under the keys \<open>ssl.client.auth\<close>,
  \<open>log.dirs\<close> and \<open>ssl\<close>, the table has a row for \<open>ssl\<close> as well.
\<close>

theorem C1_substring_key_is_rendered:
  "exec_cluster env_ssl_entry (Some admin_handle) None =
     (None,
      [Call (ListTopics admin_handle),
       Print '' (+) Cluster ID: lkc-7f3a'', Print '''',
       Print '' (+) Metadata origin broker name: kafka1.internal:9092/1'', Print '''',
       Tprint [[CStr ''ID'', CStr ''Host'', CStr ''Port''],
               [CInt 1, CStr ''kafka1.internal'', CInt 9092]],
       Print '''',
       Print '' (+) Metadata origin broker ID: 1'', Print '''',
       Print '' (+) Controller broker ID: 1'', Print '''',
       Call (DescribeConfigs admin_handle ''1''),
       Tprint [[CStr ''Name'', CStr ''Value'', CStr ''Source'', CStr ''Read Only'', CStr ''Sensitive''],
               [CStr ''ssl'', CStr ''-'', CSource DYNAMIC_BROKER_CONFIG, CStr '''', CStr ''Yes''],
               [CStr ''ssl.client.auth'', CStr ''required'', CSource STATIC_BROKER_CONFIG,
                CStr ''Yes'', CStr '''']]])"
  by code_simp

text \<open>
  C2. Specified: a failing broker is reported by its ID without stopping the other
  fetches, and the per-broker outputs come in ascending broker-ID order. The first half
  holds (\<open>describe_brokers_isolated\<close>). The loop of line 291 walks
  \<open>meta.brokers.values()\<close>, not the sorted list of line 268: with brokers listed as
  1, 3, 2 and broker 2 timing out, the broker table is sorted but the per-broker outputs
  come as table for 1, table for 3, failure for 2.
\<close>

theorem C2_config_fetches_follow_dict_order:
  "exec_cluster env_broker2_down (Some admin_handle) None =
     (None,
      [Call (ListTopics admin_handle),
       Print '' (+) Cluster ID: lkc-7f3a'', Print '''',
       Print '' (+) Metadata origin broker name: kafka1.internal:9092/1'', Print '''',
       Tprint [[CStr ''ID'', CStr ''Host'', CStr ''Port''],
               [CInt 1, CStr ''kafka1.internal'', CInt 9092],
               [CInt 2, CStr ''kafka2.internal'', CInt 9092],
               [CInt 3, CStr ''kafka3.internal'', CInt 9092]],
       Print '''',
       Print '' (+) Metadata origin broker ID: 1'', Print '''',
       Print '' (+) Controller broker ID: 3'', Print '''',
       Call (DescribeConfigs admin_handle ''1''),
       Tprint [[CStr ''Name'', CStr ''Value'', CStr ''Source'', CStr ''Read Only'', CStr ''Sensitive''],
               [CStr ''ssl.client.auth'', CStr ''required'', CSource STATIC_BROKER_CONFIG,
                CStr ''Yes'', CStr '''']],
       Call (DescribeConfigs admin_handle ''3''),
       Tprint [[CStr ''Name'', CStr ''Value'', CStr ''Source'', CStr ''Read Only'', CStr ''Sensitive''],
               [CStr ''ssl.client.auth'', CStr ''required'', CSource STATIC_BROKER_CONFIG,
                CStr ''Yes'', CStr '''']],
       Call (DescribeConfigs admin_handle ''2''),
       Print '' (-) Could not describe broker 2''])"
  by code_simp

section \<open>Disconnecting\<close>

lemma close_handle_prints:
  "Print '' (-) Not connected'' \<notin> set (snd (close_handle env h '' (+) Admin disconnected'')) \<and>
   Print '' (-) Not connected'' \<notin> set (snd (close_handle env h '' (+) Consumer disconnected''))"
  by (auto simp: close_handle_def split: option.splits)

lemma close_handle_calls:
  "h = Some c \<Longrightarrow> \<exists>rest. calls (snd (close_handle env h msg)) = Close c # rest"
  by (auto simp: close_handle_def split: option.splits)

lemma close_handle_absent: "close_handle env None msg = (None, [])"
  by (simp add: close_handle_def)

lemma exec_disconnect_connected:
  assumes "adm \<noteq> None \<or> con \<noteq> None"
  shows "Print '' (-) Not connected'' \<notin> set (snd (exec_disconnect env adm con)) \<and>
         (\<exists>h rest. (adm = Some h \<or> adm = None \<and> con = Some h) \<and>
                   calls (snd (exec_disconnect env adm con)) = Close h # rest)"
proof -
  obtain r1 t1 where a: "close_handle env adm '' (+) Admin disconnected'' = (r1, t1)"
    by (cases "close_handle env adm '' (+) Admin disconnected''")
  obtain r2 t2 where c: "close_handle env con '' (+) Consumer disconnected'' = (r2, t2)"
    by (cases "close_handle env con '' (+) Consumer disconnected''")
  have p1: "Print '' (-) Not connected'' \<notin> set t1"
    using close_handle_prints [of env adm] a by simp
  have p2: "Print '' (-) Not connected'' \<notin> set t2"
    using close_handle_prints [of env con] c by simp
  have calls_append: "calls (xs @ ys) = calls xs @ calls ys" for xs ys
    by (induction xs rule: calls.induct) simp_all
  have run: "exec_disconnect env adm con =
      (case r1 of Some e \<Rightarrow> (Some e, t1) | None \<Rightarrow> (r2, t1 @ t2))"
    using assms a c by (auto simp: exec_disconnect_def split: option.splits)
  have quiet: "Print '' (-) Not connected'' \<notin> set (snd (exec_disconnect env adm con))"
    using run p1 p2 by (cases r1) simp_all
  have first: "\<exists>h rest. (adm = Some h \<or> adm = None \<and> con = Some h) \<and>
                   calls (snd (exec_disconnect env adm con)) = Close h # rest"
  proof (cases adm)
    case (Some h)
    then obtain rest where "calls t1 = Close h # rest"
      using close_handle_calls [of adm h env "'' (+) Admin disconnected''"] a by auto
    then have "\<exists>rest. calls (snd (exec_disconnect env adm con)) = Close h # rest"
      using run by (cases r1) (simp_all add: calls_append)
    with Some show ?thesis by blast
  next
    case None
    with assms obtain h where h: "con = Some h" by blast
    from None a have "r1 = None" "t1 = []"
      by (simp_all add: close_handle_absent)
    moreover obtain rest where "calls t2 = Close h # rest"
      using close_handle_calls [OF h, of env "'' (+) Consumer disconnected''"] c by auto
    ultimately have "calls (snd (exec_disconnect env adm con)) = Close h # rest"
      using run by simp
    with None h show ?thesis by blast
  qed
  from quiet first show ?thesis by blast
qed

lemma broker_metadata_prints: "Print '' (-) Not connected'' \<notin> set (broker_metadata m)"
  by (simp add: broker_metadata_def)

lemma query_meta_shape:
  "Print '' (-) Not connected'' \<notin> set (snd (snd (query_meta env h))) \<and>
   (\<exists>rest. snd (snd (query_meta env h)) = Call (ListTopics h) # rest)"
  by (auto simp: query_meta_def split: outcome.splits exc.splits)

lemma exec_cluster_connected:
  assumes "adm \<noteq> None \<or> con \<noteq> None"
  shows "Print '' (-) Not connected'' \<notin> set (snd (exec_cluster env adm con)) \<and>
         (\<exists>h rest. (adm = Some h \<or> adm = None \<and> con = Some h) \<and>
                   snd (exec_cluster env adm con) = Call (ListTopics h) # rest)"
proof -
  obtain h where h: "adm = Some h \<or> adm = None \<and> con = Some h"
    using assms by (cases adm) auto
  then have f: "fetch_meta env adm con = query_meta env h"
    by (auto simp: fetch_meta_def)
  obtain r0 meta t0 where q: "query_meta env h = (r0, meta, t0)"
    by (cases "query_meta env h")
  obtain rest where t0: "t0 = Call (ListTopics h) # rest"
    and quiet0: "Print '' (-) Not connected'' \<notin> set t0"
    using query_meta_shape [of env h] q by auto
  have loop: "Print '' (-) Not connected'' \<notin> set t3"
    if "describe_brokers env a bs = (r3, t3)" for a bs r3 t3
    using describe_brokers_prints [of env a bs] that by simp
  have "Print '' (-) Not connected'' \<notin> set (snd (exec_cluster env adm con)) \<and>
        (\<exists>rest. snd (exec_cluster env adm con) = Call (ListTopics h) # rest)"
    using assms f q t0 quiet0 broker_metadata_prints loop
    by (auto simp: exec_cluster_def Let_def split: option.splits prod.splits)
  with h show ?thesis by blast
qed

text \<open>
  C10. The \<open>disconnect\<close> command leaves the session's admin and consumer fields as
  they were: the handles that were present are closed and still stored. A second
  \<open>disconnect\<close> therefore closes the first of them again and does not print the
  not-connected line, and a following \<open>cluster\<close> command goes on to query the
  metadata through that handle instead of stopping as not connected.
\<close>

theorem C10_disconnect_keeps_handles:
  assumes "admin S \<noteq> None \<or> consumer S \<noteq> None"
    and "command env S [''disconnect''] = (r, go, S', t)"
  shows "S' = S \<and> admin S' = admin S \<and> consumer S' = consumer S \<and>
         (\<exists>h rest. (admin S = Some h \<or> admin S = None \<and> consumer S = Some h) \<and>
                   calls t = Close h # rest) \<and>
         (\<forall>env2. Print '' (-) Not connected''
                   \<notin> set (snd (snd (snd (command env2 S' [''disconnect''])))) \<and>
                 (\<exists>h rest. (admin S = Some h \<or> admin S = None \<and> consumer S = Some h) \<and>
                    calls (snd (snd (snd (command env2 S' [''disconnect'']))))
                      = Close h # rest)) \<and>
         (\<forall>env3. Print '' (-) Not connected''
                   \<notin> set (snd (snd (snd (command env3 S' [''cluster''])))) \<and>
                 (\<exists>h rest. (admin S = Some h \<or> admin S = None \<and> consumer S = Some h) \<and>
                    snd (snd (snd (command env3 S' [''cluster''])))
                      = Print '''' # Call (ListTopics h) # rest))"
proof -
  have disc: "command e S [''disconnect''] =
      (fst (exec_disconnect e (admin S) (consumer S)), True, S,
       Print '''' # snd (exec_disconnect e (admin S) (consumer S)))" for e
    by (simp add: command_def split: prod.splits)
  have clus: "command e S [''cluster''] =
      (fst (exec_cluster e (admin S) (consumer S)), True, S,
       Print '''' # snd (exec_cluster e (admin S) (consumer S)))" for e
    by (simp add: command_def split: prod.splits)
  have same: "S' = S" and t: "t = Print '''' # snd (exec_disconnect env (admin S) (consumer S))"
    using disc [of env] assms(2) by simp_all
  have first: "\<exists>h rest. (admin S = Some h \<or> admin S = None \<and> consumer S = Some h) \<and>
                   calls t = Close h # rest"
    using exec_disconnect_connected [OF assms(1), of env] t by simp
  have again: "Print '' (-) Not connected''
                   \<notin> set (snd (snd (snd (command env2 S' [''disconnect''])))) \<and>
                 (\<exists>h rest. (admin S = Some h \<or> admin S = None \<and> consumer S = Some h) \<and>
                    calls (snd (snd (snd (command env2 S' [''disconnect'']))))
                      = Close h # rest)" for env2
    using exec_disconnect_connected [OF assms(1), of env2] disc [of env2] same by simp
  have discover: "Print '' (-) Not connected''
                   \<notin> set (snd (snd (snd (command env3 S' [''cluster''])))) \<and>
                 (\<exists>h rest. (admin S = Some h \<or> admin S = None \<and> consumer S = Some h) \<and>
                    snd (snd (snd (command env3 S' [''cluster''])))
                      = Print '''' # Call (ListTopics h) # rest)" for env3
    using exec_cluster_connected [OF assms(1), of env3] clus [of env3] same by simp
  from same first again discover show ?thesis
    by blast
qed

theorem C10_disconnect_keeps_handles_witness:
  "command env_load S_connected [''disconnect''] =
     (None, True, S_connected,
      [Print '''', Call (Close admin_handle), Print '' (+) Admin disconnected'',
       Call (Close consumer_handle), Print '' (+) Consumer disconnected'']) \<and>
   admin S_connected = Some admin_handle \<and>
   (\<forall>env2. Print '' (-) Not connected''
             \<notin> set (snd (snd (snd (command env2 S_connected [''disconnect'']))))) \<and>
   (\<forall>env3. Print '' (-) Not connected''
             \<notin> set (snd (snd (snd (command env3 S_connected [''cluster''])))))"
proof -
  have present: "admin S_connected \<noteq> None \<or> consumer S_connected \<noteq> None"
    by (simp add: S_connected_def)
  have run: "command env_load S_connected [''disconnect''] =
     (None, True, S_connected,
      [Print '''', Call (Close admin_handle), Print '' (+) Admin disconnected'',
       Call (Close consumer_handle), Print '' (+) Consumer disconnected''])"
    by (simp add: command_def exec_disconnect_def close_handle_def S_connected_def env_load_def)
  have adm: "admin S_connected = Some admin_handle"
    by (simp add: S_connected_def)
  show ?thesis
    using C10_disconnect_keeps_handles [OF present run] run adm by blast
qed

end
